theory Spec2Isabelle
  imports Complex_Main "HOL-Library.Log_Nat"
begin

section \<open>Data model of the entry point\<close>

text \<open>
  The repository's entry point \<^verbatim>\<open>main\<close> (src/main.py) drives one experiment: it asks an
  \<^verbatim>\<open>ExperimentBuilder\<close> for adversarial data, derives accuracy, attack success rate and
  latency figures from it and hands one record to persistence. The collaborators it imports
  (builder, evaluators, storage, logging) are not part of src/main.py; the model takes them
  as parameters and records every call made to them in a trace.

  Python values that travel through the entry point without being inspected (labels and
  texts of the examples) are values of \<open>pyval\<close>. A Python float is the rational number it
  denotes; the float arithmetic of the entry point itself (one subtraction and one
  \<^verbatim>\<open>round\<close> per derived field) rounds to binary64 as Python does. Infinities and NaN
  are not values of the model.
\<close>

datatype pyval = VNone | VInt int | VStr string

text \<open>An example is a Python dict with the keys \<^verbatim>\<open>text\<close>, \<^verbatim>\<open>label\<close> and, optionally,
  \<^verbatim>\<open>perturbed_label\<close>.\<close>

type_synonym example = "string \<rightharpoonup> pyval"

datatype error = KeyError string | MetricError

text \<open>The namespace returned by \<^verbatim>\<open>parser.parse_args()\<close>.\<close>

record args =
  model :: string
  dataset :: string
  attack :: string
  quantization :: "string option"
  num_samples :: int

text \<open>The dict returned by \<^verbatim>\<open>run_experiment()\<close>; \<open>None\<close> is an absent key.\<close>

record experiment_result =
  status :: "string option"
  adversarial_data :: "example list option"

text \<open>The attributes \<^verbatim>\<open>experiment.model\<close> and \<^verbatim>\<open>experiment.tokenizer\<close> of the builder object.\<close>

record ('m, 'k) experiment_builder =
  exp_model :: 'm
  exp_tokenizer :: 'k

text \<open>Values of the \<^verbatim>\<open>final_results\<close> dict; the dict itself is an association list in
  the order of the dict literal.\<close>

datatype jval = JNone | JStr string | JNum rat

type_synonym final_results = "(string \<times> jval) list"

text \<open>One constructor for every call the entry point makes to a collaborator.\<close>

datatype ('m, 'k) call =
    Setup_logger
  | Logging_info string
  | Logging_info_results final_results
  | Logging_error string
  | Run_experiment string string string "string option"
  | Calculate_accuracy "pyval list" "pyval list"
  | Calculate_asr "pyval list" "pyval list"
  | Measure_latency 'm "pyval list" 'k
  | Save_results_json final_results
  | Save_results_csv "final_results list"

text \<open>
  The collaborators. The builder and the latency evaluator act on the outside world
  (model loading, wall-clock time), which is threaded through as a state of type \<open>'w\<close>;
  \<open>build_and_run\<close> stands for \<^verbatim>\<open>ExperimentBuilder(model, dataset, attack, quantization)\<close>
  followed by \<^verbatim>\<open>run_experiment()\<close> and receives exactly the four constructor arguments.
\<close>

record ('w, 'm, 'k) collaborators =
  build_and_run :: "string \<Rightarrow> string \<Rightarrow> string \<Rightarrow> string option \<Rightarrow> 'w
                     \<Rightarrow> (('m, 'k) experiment_builder \<times> experiment_result) \<times> 'w"
  calculate_accuracy :: "pyval list \<Rightarrow> pyval list \<Rightarrow> error + rat"
  calculate_asr :: "pyval list \<Rightarrow> pyval list \<Rightarrow> error + rat"
  measure_latency :: "'m \<Rightarrow> pyval list \<Rightarrow> 'k \<Rightarrow> 'w \<Rightarrow> rat \<times> 'w"

text \<open>What one execution of \<^verbatim>\<open>main\<close> leaves behind: the exception that escaped (if any),
  the calls made, and the outside world.\<close>

record ('w, 'm, 'k) run =
  raised :: "error option"
  trace :: "('m, 'k) call list"
  world :: 'w

section \<open>The evaluators, from their contracts\<close>

text \<open>
  Modelled from the spec: \<^verbatim>\<open>AccuracyEvaluator.calculate_accuracy\<close> (metrics/accuracy.py is
  not among the sources). "Requires equal-length sequences; count of positional matches
  divided by length. Zero-length input is an edge case that must yield a defined value (0.0)
  rather than a division fault." A length mismatch is the spec's \<^verbatim>\<open>MetricError\<close>.
\<close>

definition AccuracyEvaluator_calculate_accuracy :: "'a list \<Rightarrow> 'a list \<Rightarrow> error + rat" where
  "AccuracyEvaluator_calculate_accuracy reference_labels predicted_labels =
     (if length reference_labels \<noteq> length predicted_labels then Inl MetricError
      else if length reference_labels = 0 then Inr 0
      else Inr (of_nat (length (filter (\<lambda>(r, p). r = p) (zip reference_labels predicted_labels)))
                / of_nat (length reference_labels)))"

text \<open>
  Modelled from the spec: \<^verbatim>\<open>AttackSuccessRate.calculate_asr\<close> (metrics/robustness.py is not
  among the sources). "Fraction of positions where \<^verbatim>\<open>perturbed_labels[i] != original_labels[i]\<close>.
  Same zero-length contract" as the accuracy evaluator.
\<close>

definition AttackSuccessRate_calculate_asr :: "'a list \<Rightarrow> 'a list \<Rightarrow> error + rat" where
  "AttackSuccessRate_calculate_asr original_labels perturbed_labels =
     (if length original_labels \<noteq> length perturbed_labels then Inl MetricError
      else if length original_labels = 0 then Inr 0
      else Inr (of_nat (length (filter (\<lambda>(r, p). p \<noteq> r) (zip original_labels perturbed_labels)))
                / of_nat (length original_labels)))"

text \<open>The spec's wording of both counts, by position.\<close>

definition positional_matches :: "'a list \<Rightarrow> 'a list \<Rightarrow> nat set" where
  "positional_matches R P = {i. i < length R \<and> R ! i = P ! i}"

definition flipped_positions :: "'a list \<Rightarrow> 'a list \<Rightarrow> nat set" where
  "flipped_positions R P = {i. i < length R \<and> P ! i \<noteq> R ! i}"

section \<open>Language primitives used by the entry point\<close>

text \<open>Rounding to the nearest integer, a tie going to the even one.\<close>

definition round_half_even :: "rat \<Rightarrow> int" where
  "round_half_even x =
     (let f = \<lfloor>x\<rfloor>; d = x - of_int f
      in if d < 1 / 2 then f else if 1 / 2 < d then f + 1 else if even f then f else f + 1)"

text \<open>The binary exponent of a positive number: the \<open>e\<close> with \<open>2 ^ e \<le> x < 2 ^ (e + 1)\<close>,
  from the bit lengths of numerator and denominator.\<close>

definition floor_log2 :: "rat \<Rightarrow> int" where
  "floor_log2 x =
     (let (a, b) = quotient_of x; d = bitlen a - bitlen b
      in if 2 powi d \<le> x then d else d - 1)"

text \<open>
  The binary64 number nearest to \<open>x\<close>, a tie going to the even significand: 53 significant
  bits, the exponent not below \<open>-1022\<close> (below that the spacing stays \<open>2 ^ -1074\<close>).
  Magnitudes of \<open>2 ^ 1024\<close> and more, which Python turns into an infinity, are outside
  the model.
\<close>

definition to_double :: "rat \<Rightarrow> rat" where
  "to_double x =
     (if x = 0 then 0
      else let e = max (floor_log2 \<bar>x\<bar>) (- 1022); ulp = 2 powi (e - 52)
           in of_int (round_half_even (x / ulp)) * ulp)"

text \<open>Python's \<^verbatim>\<open>x - y\<close> on floats: the exact difference, rounded to binary64.\<close>

definition float_sub :: "rat \<Rightarrow> rat \<Rightarrow> rat" where
  "float_sub x y = to_double (x - y)"

text \<open>The decimal with \<open>ndigits\<close> places nearest to \<open>x\<close>, a tie going to the even last
  digit.\<close>

definition round_decimal :: "rat \<Rightarrow> nat \<Rightarrow> rat" where
  "round_decimal x ndigits = of_int (round_half_even (x * 10 ^ ndigits)) / 10 ^ ndigits"

text \<open>
  Python's \<^verbatim>\<open>round(x, ndigits)\<close> on a float, for \<open>ndigits \<ge> 0\<close>: the exact value of \<open>x\<close> is
  rounded to \<open>ndigits\<close> decimal places (correctly, ties to even), and the float returned is
  the binary64 number nearest to that decimal.
\<close>

definition py_round :: "rat \<Rightarrow> nat \<Rightarrow> rat" where
  "py_round x ndigits = to_double (round_decimal x ndigits)"

text \<open>What "rounded to \<open>ndigits\<close> decimal places" asks of a result \<open>y\<close> for an input \<open>x\<close>:
  a whole number of units of \<open>10 ^ -ndigits\<close>, at most half a unit away.\<close>

definition rounded_to :: "nat \<Rightarrow> rat \<Rightarrow> rat \<Rightarrow> bool" where
  "rounded_to ndigits x y \<longleftrightarrow>
     of_int \<lfloor>y * 10 ^ ndigits\<rfloor> = y * 10 ^ ndigits \<and> \<bar>y - x\<bar> * (2 * 10 ^ ndigits) \<le> 1"

text \<open>\<^verbatim>\<open>d[key]\<close> raises \<^verbatim>\<open>KeyError\<close> on an absent key.\<close>

definition subscript :: "example \<Rightarrow> string \<Rightarrow> error + pyval" where
  "subscript d key = (case d key of None \<Rightarrow> Inl (KeyError key) | Some v \<Rightarrow> Inr v)"

text \<open>A list comprehension \<^verbatim>\<open>[f(d) for d in ds]\<close>: left to right, the first exception escapes.\<close>

fun comprehension :: "('a \<Rightarrow> error + 'b) \<Rightarrow> 'a list \<Rightarrow> error + 'b list" where
  "comprehension f [] = Inr []"
| "comprehension f (d # ds) =
     (case f d of
        Inl e \<Rightarrow> Inl e
      | Inr v \<Rightarrow> (case comprehension f ds of Inl e \<Rightarrow> Inl e | Inr vs \<Rightarrow> Inr (v # vs)))"

section \<open>The entry point\<close>

text \<open>\<^verbatim>\<open>d.get("perturbed_label", d["label"])\<close>: the default \<^verbatim>\<open>d["label"]\<close> is an argument and
  is evaluated before the lookup.\<close>

definition perturbed_label :: "example \<Rightarrow> error + pyval" where
  "perturbed_label d =
     (case subscript d ''label'' of
        Inl e \<Rightarrow> Inl e
      | Inr fallback \<Rightarrow> Inr (case d ''perturbed_label'' of None \<Rightarrow> fallback | Some v \<Rightarrow> v))"

text \<open>The three comprehensions over \<^verbatim>\<open>adversarial_data\<close> (lines 44, 45, 52 and 53).\<close>

definition original_labels_of :: "example list \<Rightarrow> error + pyval list" where
  "original_labels_of data = comprehension (\<lambda>d. subscript d ''label'') data"

definition perturbed_labels_of :: "example list \<Rightarrow> error + pyval list" where
  "perturbed_labels_of data = comprehension perturbed_label data"

definition texts_of :: "example list \<Rightarrow> error + pyval list" where
  "texts_of data = comprehension (\<lambda>d. subscript d ''text'') data"

text \<open>The f-string of the first log line; \<^verbatim>\<open>args.quantization or 'No Quantization'\<close> takes the
  replacement for \<^verbatim>\<open>None\<close> and for the empty string.\<close>

definition running_message :: "args \<Rightarrow> string" where
  "running_message a =
     ''Running experiment: '' @ attack a @ '' on '' @ model a @ '' with '' @
     (case quantization a of
        None \<Rightarrow> ''No Quantization''
      | Some q \<Rightarrow> if q = [] then ''No Quantization'' else q)"

definition abort :: "error \<Rightarrow> ('m, 'k) call list \<Rightarrow> 'w \<Rightarrow> ('w, 'm, 'k) run" where
  "abort e t w = \<lparr>raised = Some e, trace = t, world = w\<rparr>"

text \<open>The dict literal of lines 55 to 66.\<close>

definition final_results_dict :: "args \<Rightarrow> rat \<Rightarrow> rat \<Rightarrow> rat \<Rightarrow> rat \<Rightarrow> rat \<Rightarrow> final_results" where
  "final_results_dict a accuracy_before accuracy_after asr latency_before latency_after =
     [(''model'', JStr (model a)),
      (''quantization'', case quantization a of None \<Rightarrow> JNone | Some q \<Rightarrow> JStr q),
      (''attack'', JStr (attack a)),
      (''accuracy_before'', JNum accuracy_before),
      (''accuracy_after'', JNum accuracy_after),
      (''accuracy_drop'', JNum (py_round (float_sub accuracy_before accuracy_after) 2)),
      (''attack_success_rate'', JNum asr),
      (''latency_before_ms'', JNum latency_before),
      (''latency_after_ms'', JNum latency_after),
      (''latency_increase_ms'', JNum (py_round (float_sub latency_after latency_before) 2))]"

text \<open>Lines 40 to 72 of \<^verbatim>\<open>main\<close>: everything after the status check.\<close>

definition evaluate_attack ::
  "('w, 'm, 'k) collaborators \<Rightarrow> args \<Rightarrow> ('m, 'k) experiment_builder \<Rightarrow> example list
     \<Rightarrow> ('m, 'k) call list \<Rightarrow> 'w \<Rightarrow> ('w, 'm, 'k) run" where
  "evaluate_attack env a experiment data t w =
    (case original_labels_of data of
       Inl e \<Rightarrow> abort e t w
     | Inr original_labels \<Rightarrow>
    (case perturbed_labels_of data of
       Inl e \<Rightarrow> abort e t w
     | Inr perturbed_labels \<Rightarrow>
    (let t1 = t @ [Calculate_accuracy original_labels original_labels] in
     case calculate_accuracy env original_labels original_labels of
       Inl e \<Rightarrow> abort e t1 w
     | Inr accuracy_before \<Rightarrow>
    (let t2 = t1 @ [Calculate_accuracy original_labels perturbed_labels] in
     case calculate_accuracy env original_labels perturbed_labels of
       Inl e \<Rightarrow> abort e t2 w
     | Inr accuracy_after \<Rightarrow>
    (let t3 = t2 @ [Calculate_asr original_labels perturbed_labels] in
     case calculate_asr env original_labels perturbed_labels of
       Inl e \<Rightarrow> abort e t3 w
     | Inr asr \<Rightarrow>
    (case texts_of data of
       Inl e \<Rightarrow> abort e t3 w
     | Inr texts_before \<Rightarrow>
    (let t4 = t3 @ [Measure_latency (exp_model experiment) texts_before (exp_tokenizer experiment)];
         (latency_before, w1) =
            measure_latency env (exp_model experiment) texts_before (exp_tokenizer experiment) w
     in
     case texts_of data of
       Inl e \<Rightarrow> abort e t4 w1
     | Inr texts_after \<Rightarrow>
    (let t5 = t4 @ [Measure_latency (exp_model experiment) texts_after (exp_tokenizer experiment)];
         (latency_after, w2) =
            measure_latency env (exp_model experiment) texts_after (exp_tokenizer experiment) w1;
         final_results =
           final_results_dict a accuracy_before accuracy_after asr latency_before latency_after
     in \<lparr>raised = None,
         trace = t5 @ [Logging_info_results final_results,
                       Save_results_json final_results,
                       Save_results_csv [final_results],
                       Logging_info ''Experiment completed successfully!''],
         world = w2\<rparr>))))))))"

text \<open>
  \<^verbatim>\<open>main\<close>, lines 11 to 38, continued by \<open>evaluate_attack\<close>. The parsed arguments are
  the input; \<^verbatim>\<open>args.num_samples\<close> is parsed and not passed on.
\<close>

definition main :: "('w, 'm, 'k) collaborators \<Rightarrow> args \<Rightarrow> 'w \<Rightarrow> ('w, 'm, 'k) run" where
  "main env a w =
    (let t0 = [Setup_logger,
               Logging_info (running_message a),
               Run_experiment (model a) (dataset a) (attack a) (quantization a)];
         ((experiment, results), w1) =
            build_and_run env (model a) (dataset a) (attack a) (quantization a) w
     in case status results of
          None \<Rightarrow> abort (KeyError ''status'') t0 w1
        | Some st \<Rightarrow>
            if st \<noteq> ''success''
            then \<lparr>raised = None,
                  trace = t0 @ [Logging_error ''Experiment failed. Exiting.''],
                  world = w1\<rparr>
            else (case adversarial_data results of
                    None \<Rightarrow> abort (KeyError ''adversarial_data'') t0 w1
                  | Some data \<Rightarrow> evaluate_attack env a experiment data t0 w1))"

section \<open>Observations on a run\<close>

text \<open>Calls that compute a metric, and calls that persist a record.\<close>

fun is_metric_call :: "('m, 'k) call \<Rightarrow> bool" where
  "is_metric_call (Calculate_accuracy _ _) = True"
| "is_metric_call (Calculate_asr _ _) = True"
| "is_metric_call (Measure_latency _ _ _) = True"
| "is_metric_call _ = False"

fun is_persist_call :: "('m, 'k) call \<Rightarrow> bool" where
  "is_persist_call (Save_results_json _) = True"
| "is_persist_call (Save_results_csv _) = True"
| "is_persist_call _ = False"

fun is_latency_call :: "('m, 'k) call \<Rightarrow> bool" where
  "is_latency_call (Measure_latency _ _ _) = True"
| "is_latency_call _ = False"

text \<open>A run is successful when the builder reported \<^verbatim>\<open>"success"\<close> and no exception escaped
  the entry point.\<close>

definition successful_run :: "('w, 'm, 'k) collaborators \<Rightarrow> args \<Rightarrow> 'w \<Rightarrow> bool" where
  "successful_run env a w \<longleftrightarrow>
     status (snd (fst (build_and_run env (model a) (dataset a) (attack a) (quantization a) w)))
       = Some ''success''
     \<and> raised (main env a w) = None"

text \<open>The records handed to persistence, in call order.\<close>

fun persisted :: "('m, 'k) call list \<Rightarrow> final_results list" where
  "persisted [] = []"
| "persisted (Save_results_json r # cs) = r # persisted cs"
| "persisted (Save_results_csv rs # cs) = rs @ persisted cs"
| "persisted (_ # cs) = persisted cs"

text \<open>A collaborator set for concrete runs: the world is a clock, every latency measurement
  advances it and reports a reading that depends on it, and the builder answers with a fixed
  result whatever it is asked.\<close>

definition fixed_builder ::
  "experiment_result \<Rightarrow> (nat, string, string) collaborators" where
  "fixed_builder res =
     \<lparr>build_and_run = (\<lambda>m d atk q w.
          ((\<lparr>exp_model = m, exp_tokenizer = ''tokenizer of '' @ m\<rparr>, res), w)),
      calculate_accuracy = AccuracyEvaluator_calculate_accuracy,
      calculate_asr = AttackSuccessRate_calculate_asr,
      measure_latency = (\<lambda>m texts k w. (of_nat (length texts) * 5 / 2 + of_nat w / 8, Suc w))\<rparr>"

definition plain_example :: example where
  "plain_example = [''text'' \<mapsto> VStr ''a fine film'', ''label'' \<mapsto> VInt 1]"

definition flipped_example :: example where
  "flipped_example =
     [''text'' \<mapsto> VStr ''a dull film'', ''label'' \<mapsto> VInt 0, ''perturbed_label'' \<mapsto> VInt 1]"

definition unchanged_example :: example where
  "unchanged_example =
     [''text'' \<mapsto> VStr ''a dull film'', ''label'' \<mapsto> VInt 0, ''perturbed_label'' \<mapsto> VInt 0]"

definition succeeded :: "example list \<Rightarrow> experiment_result" where
  "succeeded data = \<lparr>status = Some ''success'', adversarial_data = Some data\<rparr>"

text \<open>The same collaborators with evaluators that return floats: the binary64 number nearest
  to the specified value, as a Python implementation of them returns.\<close>

definition float_evaluators ::
  "experiment_result \<Rightarrow> (nat, string, string) collaborators" where
  "float_evaluators res =
     (fixed_builder res)
       \<lparr>calculate_accuracy :=
          (\<lambda>R P. map_sum id to_double (AccuracyEvaluator_calculate_accuracy R P)),
        calculate_asr :=
          (\<lambda>R P. map_sum id to_double (AttackSuccessRate_calculate_asr R P))\<rparr>"

text \<open>Forty examples, the last one flipped by the attack.\<close>

definition forty_examples :: "example list" where
  "forty_examples = replicate 39 plain_example @ [flipped_example]"

definition example_args :: args where
  "example_args =
     \<lparr>model = ''gpt2'', dataset = ''imdb'', attack = ''adversarial'',
      quantization = None, num_samples = 1\<rparr>"

section \<open>Properties of the evaluators\<close>










section \<open>Shared facts about the entry point\<close>

lemma comprehension_Inr_iff:
  "comprehension f ds = Inr vs \<longleftrightarrow> list_all2 (\<lambda>d v. f d = Inr v) ds vs"
proof (induction ds arbitrary: vs)
  case Nil
  show ?case by auto
next
  case (Cons d ds)
  show ?case
    by (cases vs) (auto simp: Cons.IH [symmetric] split: sum.splits)
qed

lemma comprehension_length:
  "comprehension f ds = Inr vs \<Longrightarrow> length vs = length ds"
  by (simp add: comprehension_Inr_iff list_all2_lengthD)

lemma comprehension_nth:
  "comprehension f ds = Inr vs \<Longrightarrow> i < length ds \<Longrightarrow> f (ds ! i) = Inr (vs ! i)"
  by (auto simp: comprehension_Inr_iff dest: list_all2_nthD)

lemma subscript_Inr_iff: "subscript d key = Inr v \<longleftrightarrow> d key = Some v"
  by (simp add: subscript_def split: option.splits)

lemma evaluate_attack_returns:
  assumes "raised (evaluate_attack env a x data t w) = None"
  obtains ol pl ab aa asr ts lb w1 la w2 where
    "original_labels_of data = Inr ol"
    "perturbed_labels_of data = Inr pl"
    "calculate_accuracy env ol ol = Inr ab"
    "calculate_accuracy env ol pl = Inr aa"
    "calculate_asr env ol pl = Inr asr"
    "texts_of data = Inr ts"
    "measure_latency env (exp_model x) ts (exp_tokenizer x) w = (lb, w1)"
    "measure_latency env (exp_model x) ts (exp_tokenizer x) w1 = (la, w2)"
    "evaluate_attack env a x data t w =
       \<lparr>raised = None,
        trace = t @ [Calculate_accuracy ol ol, Calculate_accuracy ol pl, Calculate_asr ol pl,
                     Measure_latency (exp_model x) ts (exp_tokenizer x),
                     Measure_latency (exp_model x) ts (exp_tokenizer x),
                     Logging_info_results (final_results_dict a ab aa asr lb la),
                     Save_results_json (final_results_dict a ab aa asr lb la),
                     Save_results_csv [final_results_dict a ab aa asr lb la],
                     Logging_info ''Experiment completed successfully!''],
        world = w2\<rparr>"
  using assms unfolding evaluate_attack_def abort_def Let_def
  by (auto split: sum.splits prod.splits)

lemma main_returns:
  assumes "successful_run env a w"
    and "build_and_run env (model a) (dataset a) (attack a) (quantization a) w = ((x, res), w0)"
  obtains data ol pl ab aa asr ts lb w1 la w2 where
    "adversarial_data res = Some data"
    "original_labels_of data = Inr ol"
    "perturbed_labels_of data = Inr pl"
    "calculate_accuracy env ol ol = Inr ab"
    "calculate_accuracy env ol pl = Inr aa"
    "calculate_asr env ol pl = Inr asr"
    "texts_of data = Inr ts"
    "measure_latency env (exp_model x) ts (exp_tokenizer x) w0 = (lb, w1)"
    "measure_latency env (exp_model x) ts (exp_tokenizer x) w1 = (la, w2)"
    "main env a w =
       \<lparr>raised = None,
        trace = [Setup_logger, Logging_info (running_message a),
                 Run_experiment (model a) (dataset a) (attack a) (quantization a),
                 Calculate_accuracy ol ol, Calculate_accuracy ol pl, Calculate_asr ol pl,
                 Measure_latency (exp_model x) ts (exp_tokenizer x),
                 Measure_latency (exp_model x) ts (exp_tokenizer x),
                 Logging_info_results (final_results_dict a ab aa asr lb la),
                 Save_results_json (final_results_dict a ab aa asr lb la),
                 Save_results_csv [final_results_dict a ab aa asr lb la],
                 Logging_info ''Experiment completed successfully!''],
        world = w2\<rparr>"
proof -
  have st: "status res = Some ''success''" and r: "raised (main env a w) = None"
    using assms by (simp_all add: successful_run_def)
  obtain data where data: "adversarial_data res = Some data"
    using r st assms(2) by (cases "adversarial_data res") (auto simp: main_def abort_def)
  let ?t0 = "[Setup_logger, Logging_info (running_message a),
              Run_experiment (model a) (dataset a) (attack a) (quantization a)]"
  have m: "main env a w = evaluate_attack env a x data ?t0 w0"
    using st data assms(2) by (simp add: main_def)
  with r have "raised (evaluate_attack env a x data ?t0 w0) = None"
    by simp
  then show thesis
    by (rule evaluate_attack_returns) (rule that [OF data], simp_all add: m)
qed

lemma main_not_success:
  assumes "build_and_run env (model a) (dataset a) (attack a) (quantization a) w = ((x, res), w0)"
    and "status res \<noteq> Some ''success''"
  shows "main env a w =
     (case status res of
        None \<Rightarrow> \<lparr>raised = Some (KeyError ''status''),
                  trace = [Setup_logger, Logging_info (running_message a),
                           Run_experiment (model a) (dataset a) (attack a) (quantization a)],
                  world = w0\<rparr>
      | Some st \<Rightarrow> \<lparr>raised = None,
                  trace = [Setup_logger, Logging_info (running_message a),
                           Run_experiment (model a) (dataset a) (attack a) (quantization a),
                           Logging_error ''Experiment failed. Exiting.''],
                  world = w0\<rparr>)"
  using assms by (simp add: main_def abort_def Let_def split: option.splits)

section \<open>The failure branch\<close>

text \<open>
  Claim C1. When the status reported by the builder is not \<^verbatim>\<open>"success"\<close>, the entry point
  makes no metric call and no persistence call, never raises the \<^verbatim>\<open>KeyError\<close> of a read of
  \<^verbatim>\<open>adversarial_data\<close>, and, when a status is present, logs one error and returns. Its whole
  run is the same whatever \<^verbatim>\<open>adversarial_data\<close> holds, absent or present: that entry is
  read only on the branch where the status equals \<^verbatim>\<open>"success"\<close>.
\<close>

theorem failure_skips_evaluation:
  fixes env :: "('w, 'm, 'k) collaborators"
  assumes run: "build_and_run env (model a) (dataset a) (attack a) (quantization a) w
                  = ((x, res), w0)"
    and failed: "status res \<noteq> Some ''success''"
  shows "list_all (\<lambda>c. \<not> is_metric_call c \<and> \<not> is_persist_call c) (trace (main env a w))
       \<and> raised (main env a w) \<noteq> Some (KeyError ''adversarial_data'')
       \<and> (\<forall>st. status res = Some st \<longrightarrow>
             main env a w =
               \<lparr>raised = None,
                trace = [Setup_logger, Logging_info (running_message a),
                         Run_experiment (model a) (dataset a) (attack a) (quantization a),
                         Logging_error ''Experiment failed. Exiting.''],
                world = w0\<rparr>)
       \<and> (\<forall>(env' :: ('w, 'm, 'k) collaborators) x' ad.
             build_and_run env' (model a) (dataset a) (attack a) (quantization a) w
               = ((x', res\<lparr>adversarial_data := ad\<rparr>), w0)
             \<longrightarrow> main env' a w = main env a w)"
proof -
  note m = main_not_success [OF run failed]
  have "\<forall>(env' :: ('w, 'm, 'k) collaborators) x' ad.
          build_and_run env' (model a) (dataset a) (attack a) (quantization a) w
            = ((x', res\<lparr>adversarial_data := ad\<rparr>), w0)
          \<longrightarrow> main env' a w = main env a w"
  proof (intro allI impI)
    fix env' :: "('w, 'm, 'k) collaborators" and x' ad
    assume "build_and_run env' (model a) (dataset a) (attack a) (quantization a) w
              = ((x', res\<lparr>adversarial_data := ad\<rparr>), w0)"
    then have "main env' a w =
       (case status (res\<lparr>adversarial_data := ad\<rparr>) of
        None \<Rightarrow> \<lparr>raised = Some (KeyError ''status''),
                  trace = [Setup_logger, Logging_info (running_message a),
                           Run_experiment (model a) (dataset a) (attack a) (quantization a)],
                  world = w0\<rparr>
      | Some st \<Rightarrow> \<lparr>raised = None,
                  trace = [Setup_logger, Logging_info (running_message a),
                           Run_experiment (model a) (dataset a) (attack a) (quantization a),
                           Logging_error ''Experiment failed. Exiting.''],
                  world = w0\<rparr>)"
      using failed by (intro main_not_success) simp_all
    then show "main env' a w = main env a w"
      using m by simp
  qed
  moreover have "list_all (\<lambda>c. \<not> is_metric_call c \<and> \<not> is_persist_call c) (trace (main env a w))"
    using m by (simp split: option.splits)
  moreover have "raised (main env a w) \<noteq> Some (KeyError ''adversarial_data'')"
    using m by (simp split: option.splits)
  moreover have "\<forall>st. status res = Some st \<longrightarrow>
             main env a w =
               \<lparr>raised = None,
                trace = [Setup_logger, Logging_info (running_message a),
                         Run_experiment (model a) (dataset a) (attack a) (quantization a),
                         Logging_error ''Experiment failed. Exiting.''],
                world = w0\<rparr>"
    using m by simp
  ultimately show ?thesis
    by blast
qed

text \<open>A failed experiment whose result carries no \<^verbatim>\<open>adversarial_data\<close> at all.\<close>

theorem failure_skips_evaluation_witness:
  "main (fixed_builder \<lparr>status = Some ''failure'', adversarial_data = None\<rparr>) example_args 0
     = \<lparr>raised = None,
        trace = [Setup_logger,
                 Logging_info ''Running experiment: adversarial on gpt2 with No Quantization'',
                 Run_experiment ''gpt2'' ''imdb'' ''adversarial'' None,
                 Logging_error ''Experiment failed. Exiting.''],
        world = 0\<rparr>
   \<and> main (fixed_builder \<lparr>status = Some ''failure'', adversarial_data = Some [plain_example]\<rparr>)
        example_args 0
     = main (fixed_builder \<lparr>status = Some ''failure'', adversarial_data = None\<rparr>) example_args 0"
proof -
  let ?res = "\<lparr>status = Some ''failure'', adversarial_data = None\<rparr>"
  let ?x = "\<lparr>exp_model = ''gpt2'', exp_tokenizer = ''tokenizer of gpt2''\<rparr>"
  have run: "build_and_run (fixed_builder ?res) (model example_args) (dataset example_args)
               (attack example_args) (quantization example_args) 0 = ((?x, ?res), 0)"
    by (simp add: fixed_builder_def example_args_def)
  have failed: "status ?res \<noteq> Some ''success''"
    by simp
  note inst = failure_skips_evaluation [OF run failed]
  have first: "main (fixed_builder ?res) example_args 0
     = \<lparr>raised = None,
        trace = [Setup_logger,
                 Logging_info ''Running experiment: adversarial on gpt2 with No Quantization'',
                 Run_experiment ''gpt2'' ''imdb'' ''adversarial'' None,
                 Logging_error ''Experiment failed. Exiting.''],
        world = 0\<rparr>"
    using inst by (simp add: running_message_def example_args_def)
  have "build_and_run (fixed_builder (?res\<lparr>adversarial_data := Some [plain_example]\<rparr>))
               (model example_args) (dataset example_args)
               (attack example_args) (quantization example_args) 0
          = ((?x, ?res\<lparr>adversarial_data := Some [plain_example]\<rparr>), 0)"
    by (simp add: fixed_builder_def example_args_def)
  with inst have "main (fixed_builder (?res\<lparr>adversarial_data := Some [plain_example]\<rparr>)) example_args 0
     = main (fixed_builder ?res) example_args 0"
    by blast
  with first show ?thesis
    by simp
qed

section \<open>The persisted record\<close>

lemma persisted_of_success:
  assumes "successful_run env a w"
    and "build_and_run env (model a) (dataset a) (attack a) (quantization a) w = ((x, res), w0)"
  obtains data ol pl ab aa asr ts lb w1 la w2 where
    "adversarial_data res = Some data"
    "original_labels_of data = Inr ol"
    "perturbed_labels_of data = Inr pl"
    "calculate_accuracy env ol ol = Inr ab"
    "calculate_accuracy env ol pl = Inr aa"
    "calculate_asr env ol pl = Inr asr"
    "texts_of data = Inr ts"
    "measure_latency env (exp_model x) ts (exp_tokenizer x) w0 = (lb, w1)"
    "measure_latency env (exp_model x) ts (exp_tokenizer x) w1 = (la, w2)"
    "filter is_persist_call (trace (main env a w))
       = [Save_results_json (final_results_dict a ab aa asr lb la),
          Save_results_csv [final_results_dict a ab aa asr lb la]]"
    "persisted (trace (main env a w))
       = [final_results_dict a ab aa asr lb la, final_results_dict a ab aa asr lb la]"
    "filter is_metric_call (trace (main env a w))
       = [Calculate_accuracy ol ol, Calculate_accuracy ol pl, Calculate_asr ol pl,
          Measure_latency (exp_model x) ts (exp_tokenizer x),
          Measure_latency (exp_model x) ts (exp_tokenizer x)]"
proof -
  from assms obtain data ol pl ab aa asr ts lb w1 la w2 where *:
    "adversarial_data res = Some data"
    "original_labels_of data = Inr ol"
    "perturbed_labels_of data = Inr pl"
    "calculate_accuracy env ol ol = Inr ab"
    "calculate_accuracy env ol pl = Inr aa"
    "calculate_asr env ol pl = Inr asr"
    "texts_of data = Inr ts"
    "measure_latency env (exp_model x) ts (exp_tokenizer x) w0 = (lb, w1)"
    "measure_latency env (exp_model x) ts (exp_tokenizer x) w1 = (la, w2)"
    and m: "main env a w =
       \<lparr>raised = None,
        trace = [Setup_logger, Logging_info (running_message a),
                 Run_experiment (model a) (dataset a) (attack a) (quantization a),
                 Calculate_accuracy ol ol, Calculate_accuracy ol pl, Calculate_asr ol pl,
                 Measure_latency (exp_model x) ts (exp_tokenizer x),
                 Measure_latency (exp_model x) ts (exp_tokenizer x),
                 Logging_info_results (final_results_dict a ab aa asr lb la),
                 Save_results_json (final_results_dict a ab aa asr lb la),
                 Save_results_csv [final_results_dict a ab aa asr lb la],
                 Logging_info ''Experiment completed successfully!''],
        world = w2\<rparr>"
    by (rule main_returns)
  show thesis
    by (rule that [OF *]) (simp_all add: m)
qed

lemma final_results_keys:
  "map fst (final_results_dict a ab aa asr lb la)
     = [''model'', ''quantization'', ''attack'', ''accuracy_before'', ''accuracy_after'',
        ''accuracy_drop'', ''attack_success_rate'', ''latency_before_ms'', ''latency_after_ms'',
        ''latency_increase_ms'']"
  by (simp add: final_results_dict_def)

lemma final_results_lookup:
  "map_of (final_results_dict a ab aa asr lb la) ''model'' = Some (JStr (model a))"
  "map_of (final_results_dict a ab aa asr lb la) ''quantization''
     = Some (case quantization a of None \<Rightarrow> JNone | Some q \<Rightarrow> JStr q)"
  "map_of (final_results_dict a ab aa asr lb la) ''attack'' = Some (JStr (attack a))"
  "map_of (final_results_dict a ab aa asr lb la) ''accuracy_before'' = Some (JNum ab)"
  "map_of (final_results_dict a ab aa asr lb la) ''accuracy_after'' = Some (JNum aa)"
  "map_of (final_results_dict a ab aa asr lb la) ''accuracy_drop''
     = Some (JNum (py_round (float_sub ab aa) 2))"
  "map_of (final_results_dict a ab aa asr lb la) ''attack_success_rate'' = Some (JNum asr)"
  "map_of (final_results_dict a ab aa asr lb la) ''latency_before_ms'' = Some (JNum lb)"
  "map_of (final_results_dict a ab aa asr lb la) ''latency_after_ms'' = Some (JNum la)"
  "map_of (final_results_dict a ab aa asr lb la) ''latency_increase_ms''
     = Some (JNum (py_round (float_sub la lb) 2))"
  by (simp_all add: final_results_dict_def)


lemma fixed_builder_run:
  "build_and_run (fixed_builder res) (model example_args) (dataset example_args)
     (attack example_args) (quantization example_args) w
   = ((\<lparr>exp_model = ''gpt2'', exp_tokenizer = ''tokenizer of gpt2''\<rparr>, res), w)"
  by (simp add: fixed_builder_def example_args_def)

lemma example_labels:
  "original_labels_of [plain_example, flipped_example] = Inr [VInt 1, VInt 0]"
  "perturbed_labels_of [plain_example, flipped_example] = Inr [VInt 1, VInt 1]"
  "texts_of [plain_example, flipped_example] = Inr [VStr ''a fine film'', VStr ''a dull film'']"
  by (simp_all add: original_labels_of_def perturbed_labels_of_def texts_of_def
      plain_example_def flipped_example_def subscript_def perturbed_label_def)

lemma example_run_raised:
  "raised (main (fixed_builder (succeeded [plain_example, flipped_example])) example_args 0) = None"
  by (simp add: main_def fixed_builder_run succeeded_def evaluate_attack_def example_labels
      fixed_builder_def AccuracyEvaluator_calculate_accuracy_def
      AttackSuccessRate_calculate_asr_def Let_def)

lemma example_run_successful:
  "successful_run (fixed_builder (succeeded [plain_example, flipped_example])) example_args 0"
  unfolding successful_run_def
  by (simp add: fixed_builder_run example_run_raised) (simp add: succeeded_def)

text \<open>
  Claim C5. In a successful run the record handed to both persistence calls is the same
  dict; its keys are exactly the ten named fields, in the order of the dict literal, and the
  fields \<^verbatim>\<open>model\<close>, \<^verbatim>\<open>quantization\<close> and \<^verbatim>\<open>attack\<close> hold the parsed arguments unchanged
  (an absent quantization stays \<^verbatim>\<open>None\<close>).
\<close>

theorem persisted_record_fields:
  assumes "successful_run env a w"
  shows "\<exists>r. filter is_persist_call (trace (main env a w))
               = [Save_results_json r, Save_results_csv [r]]
           \<and> map fst r
               = [''model'', ''quantization'', ''attack'', ''accuracy_before'', ''accuracy_after'',
                  ''accuracy_drop'', ''attack_success_rate'', ''latency_before_ms'',
                  ''latency_after_ms'', ''latency_increase_ms'']
           \<and> map_of r ''model'' = Some (JStr (model a))
           \<and> map_of r ''quantization''
               = Some (case quantization a of None \<Rightarrow> JNone | Some q \<Rightarrow> JStr q)
           \<and> map_of r ''attack'' = Some (JStr (attack a))"
proof -
  obtain x res w0 where
    run: "build_and_run env (model a) (dataset a) (attack a) (quantization a) w = ((x, res), w0)"
    by (metis surj_pair)
  from assms run obtain ab aa asr lb la where
    "filter is_persist_call (trace (main env a w))
       = [Save_results_json (final_results_dict a ab aa asr lb la),
          Save_results_csv [final_results_dict a ab aa asr lb la]]"
    by (rule persisted_of_success)
  then show ?thesis
    by (intro exI [of _ "final_results_dict a ab aa asr lb la"])
       (simp add: final_results_keys final_results_lookup)
qed


text \<open>The run on two examples, one of them flipped by the attack.\<close>

theorem persisted_record_fields_witness:
  "successful_run (fixed_builder (succeeded [plain_example, flipped_example])) example_args 0
   \<and> (\<exists>r. filter is_persist_call
              (trace (main (fixed_builder (succeeded [plain_example, flipped_example]))
                 example_args 0))
               = [Save_results_json r, Save_results_csv [r]]
           \<and> map fst r
               = [''model'', ''quantization'', ''attack'', ''accuracy_before'', ''accuracy_after'',
                  ''accuracy_drop'', ''attack_success_rate'', ''latency_before_ms'',
                  ''latency_after_ms'', ''latency_increase_ms'']
           \<and> map_of r ''model'' = Some (JStr ''gpt2'')
           \<and> map_of r ''quantization'' = Some JNone
           \<and> map_of r ''attack'' = Some (JStr ''adversarial''))"
proof -
  have "model example_args = ''gpt2''" "quantization example_args = None"
    "attack example_args = ''adversarial''"
    by (simp_all add: example_args_def)
  then show ?thesis
    using example_run_successful persisted_record_fields [OF example_run_successful]
    by (simp only: option.case simp_thms)
qed

section \<open>Rounding of the derived fields\<close>

lemma round_half_even_near: "\<bar>of_int (round_half_even x) - x\<bar> \<le> 1 / 2"
proof -
  define f where "f = \<lfloor>x\<rfloor>"
  define d where "d = x - of_int f"
  have d: "0 \<le> d" "d < 1"
    unfolding d_def f_def by linarith+
  have r: "round_half_even x =
             (if d < 1 / 2 then f else if 1 / 2 < d then f + 1 else if even f then f else f + 1)"
    by (simp add: round_half_even_def Let_def f_def d_def)
  have x: "x = of_int f + d"
    by (simp add: d_def)
  consider "d < 1 / 2" | "1 / 2 < d" | "d = 1 / 2"
    by linarith
  then show ?thesis
  proof cases
    case 1
    then have "of_int (round_half_even x) - x = - d"
      by (simp add: r d_def)
    with d 1 show ?thesis by simp
  next
    case 2
    then have "of_int (round_half_even x) - x = 1 - d"
      by (simp add: r d_def)
    with d 2 show ?thesis by simp
  next
    case 3
    then have "of_int (round_half_even x) - x = - d \<or> of_int (round_half_even x) - x = 1 - d"
      by (simp add: r d_def)
    with 3 show ?thesis by auto
  qed
qed

text \<open>The exponent is the right one, and \<open>to_double\<close> moves a number by at most half a
  unit in the last place.\<close>

lemma bitlen_powi_bounds:
  assumes "0 < a"
  shows "2 powi (bitlen a - 1) \<le> (of_int a :: rat)" and "(of_int a :: rat) < 2 powi (bitlen a)"
proof -
  from bitlen_bounds [OF assms] have lo: "2 ^ nat (bitlen a - 1) \<le> a" and hi: "a < 2 ^ nat (bitlen a)"
    by simp_all
  have pos: "1 \<le> bitlen a"
    using assms bitlen_eq_zero_iff [of a] bitlen_nonneg [of a] by linarith
  have "(2 :: rat) powi (bitlen a - 1) = 2 ^ nat (bitlen a - 1)"
    using pos by (simp add: power_int_def)
  also have "\<dots> = of_int (2 ^ nat (bitlen a - 1))"
    by simp
  also have "\<dots> \<le> of_int a"
    using lo by (simp only: of_int_le_iff)
  finally show "2 powi (bitlen a - 1) \<le> (of_int a :: rat)" .
  have "(of_int a :: rat) < of_int (2 ^ nat (bitlen a))"
    using hi by (simp only: of_int_less_iff)
  also have "\<dots> = 2 ^ nat (bitlen a)"
    by simp
  also have "\<dots> = 2 powi (bitlen a)"
    using pos by (simp add: power_int_def)
  finally show "(of_int a :: rat) < 2 powi (bitlen a)" .
qed

lemma floor_log2_bounds:
  assumes "0 < x"
  shows "2 powi (floor_log2 x) \<le> x" and "x < 2 powi (floor_log2 x + 1)"
proof -
  obtain a b where q: "quotient_of x = (a, b)"
    by (cases "quotient_of x")
  then have b: "0 < b" and x: "x = of_int a / of_int b"
    by (simp_all add: quotient_of_denom_pos quotient_of_div)
  with assms have a: "0 < a"
    by (simp add: zero_less_divide_iff)
  define d where "d = bitlen a - bitlen b"
  note A = bitlen_powi_bounds [OF a] and B = bitlen_powi_bounds [OF b]
  have bpos: "(0 :: rat) < of_int b"
    using b by simp
  have "x * 2 powi (bitlen b - 1) \<le> x * of_int b"
    using B(1) assms by (simp add: mult_left_mono)
  also have "\<dots> = of_int a"
    using bpos by (simp add: x)
  also have "\<dots> < 2 powi (bitlen a)"
    by (rule A(2))
  finally have "x < 2 powi (bitlen a) / 2 powi (bitlen b - 1)"
    by (simp add: pos_less_divide_eq)
  also have "\<dots> = 2 powi (d + 1)"
    by (simp add: d_def power_int_diff [symmetric] algebra_simps)
  finally have upper: "x < 2 powi (d + 1)" .
  have "2 powi (bitlen a - 1) \<le> (of_int a :: rat)"
    by (rule A(1))
  also have "\<dots> = x * of_int b"
    using bpos by (simp add: x)
  also have "\<dots> < x * 2 powi (bitlen b)"
    using B(2) assms by (simp add: mult_strict_left_mono)
  finally have "2 powi (bitlen a - 1) / 2 powi (bitlen b) < x"
    by (simp add: pos_divide_less_eq)
  moreover have "(2 :: rat) powi (bitlen a - 1) / 2 powi (bitlen b) = 2 powi (d - 1)"
    by (simp add: d_def power_int_diff [symmetric] algebra_simps)
  ultimately have lower: "2 powi (d - 1) < x"
    by simp
  have e: "floor_log2 x = (if 2 powi d \<le> x then d else d - 1)"
    by (simp add: floor_log2_def q d_def)
  show "2 powi (floor_log2 x) \<le> x"
    using lower by (simp add: e)
  show "x < 2 powi (floor_log2 x + 1)"
    using upper by (auto simp: e)
qed

lemma to_double_error:
  assumes "x \<noteq> 0"
  shows "\<bar>to_double x - x\<bar> \<le> 2 powi (max (floor_log2 \<bar>x\<bar>) (- 1022) - 53)"
proof -
  define ulp :: rat where "ulp = 2 powi (max (floor_log2 \<bar>x\<bar>) (- 1022) - 52)"
  have ulp: "0 < ulp"
    by (simp add: ulp_def)
  have td: "to_double x = of_int (round_half_even (x / ulp)) * ulp"
    using assms by (simp add: to_double_def ulp_def Let_def)
  have "to_double x - x = (of_int (round_half_even (x / ulp)) - x / ulp) * ulp"
    using ulp by (simp add: td field_simps)
  then have "\<bar>to_double x - x\<bar> = \<bar>of_int (round_half_even (x / ulp)) - x / ulp\<bar> * ulp"
    using ulp by (simp add: abs_mult)
  also have "\<dots> \<le> 1 / 2 * ulp"
    using round_half_even_near [of "x / ulp"] ulp by (simp add: mult_right_mono)
  also have "\<dots> = 2 powi (max (floor_log2 \<bar>x\<bar>) (- 1022) - 53)"
  proof -
    have "(2 :: rat) powi (max (floor_log2 \<bar>x\<bar>) (- 1022) - 53 + 1)
            = 2 powi (max (floor_log2 \<bar>x\<bar>) (- 1022) - 53) * 2"
      by (rule power_int_add_1) simp
    then show ?thesis
      by (simp add: ulp_def)
  qed
  finally show ?thesis .
qed

lemma round_decimal_rounded: "rounded_to n x (round_decimal x n)"
proof -
  let ?k = "round_half_even (x * 10 ^ n)"
  have whole: "round_decimal x n * 10 ^ n = of_int ?k"
    by (simp add: round_decimal_def)
  have "\<bar>round_decimal x n - x\<bar> * 10 ^ n = \<bar>(round_decimal x n - x) * 10 ^ n\<bar>"
    by (simp add: abs_mult)
  also have "\<dots> = \<bar>of_int ?k - x * 10 ^ n\<bar>"
    using whole by (simp add: algebra_simps)
  also have "\<dots> \<le> 1 / 2"
    by (rule round_half_even_near)
  finally have "\<bar>round_decimal x n - x\<bar> * (2 * 10 ^ n) \<le> 1"
    by simp
  then show ?thesis
    unfolding rounded_to_def whole by simp
qed

lemma to_double_zero: "to_double 0 = 0"
  by (simp add: to_double_def)

lemma float_sub_self: "float_sub x x = 0"
  by (simp add: float_sub_def to_double_zero)

lemma py_round_zero: "py_round 0 n = 0"
  by (simp add: py_round_def round_decimal_def round_half_even_def to_double_zero)

lemma fixed_builder_fields:
  "calculate_accuracy (fixed_builder res) = AccuracyEvaluator_calculate_accuracy"
  "calculate_asr (fixed_builder res) = AttackSuccessRate_calculate_asr"
  "measure_latency (fixed_builder res) m ts k w
     = (of_nat (length ts) * 5 / 2 + of_nat w / 8, Suc w)"
  by (simp_all add: fixed_builder_def)

text \<open>The model at three inputs of \<^verbatim>\<open>round\<close> that the exact decimal rounding of the ideal
  difference gets wrong: Python gives 0.03, 0.01 and 2.67.\<close>

lemma python_round_examples:
  "py_round (float_sub 1 (to_double (39 / 40))) 2 = to_double (3 / 100)"
  "py_round (float_sub 1 (to_double (199 / 200))) 2 = to_double (1 / 100)"
  "py_round (to_double (107 / 40)) 2 = to_double (267 / 100)"
  "round_decimal (1 - 39 / 40) 2 = 1 / 50"
  by code_simp+

lemma comprehension_replicate:
  "f d = Inr v \<Longrightarrow> comprehension f (replicate n d) = Inr (replicate n v)"
  by (induction n) simp_all

lemma comprehension_append:
  "comprehension f xs = Inr vs \<Longrightarrow> comprehension f ys = Inr ws
     \<Longrightarrow> comprehension f (xs @ ys) = Inr (vs @ ws)"
  by (simp add: comprehension_Inr_iff list_all2_appendI)

lemma forty_labels:
  "original_labels_of forty_examples = Inr (replicate 39 (VInt 1) @ [VInt 0])"
  "perturbed_labels_of forty_examples = Inr (replicate 39 (VInt 1) @ [VInt 1])"
  "texts_of forty_examples = Inr (replicate 39 (VStr ''a fine film'') @ [VStr ''a dull film''])"
  unfolding original_labels_of_def perturbed_labels_of_def texts_of_def forty_examples_def
  by (rule comprehension_append, rule comprehension_replicate;
      simp add: subscript_def perturbed_label_def plain_example_def flipped_example_def)+

lemma forty_accuracy:
  "AccuracyEvaluator_calculate_accuracy
     (replicate 39 (VInt 1) @ [VInt 0]) (replicate 39 (VInt 1) @ [VInt 0]) = Inr 1"
  "AccuracyEvaluator_calculate_accuracy
     (replicate 39 (VInt 1) @ [VInt 0]) (replicate 39 (VInt 1) @ [VInt 1]) = Inr (39 / 40)"
  "AttackSuccessRate_calculate_asr
     (replicate 39 (VInt 1) @ [VInt 0]) (replicate 39 (VInt 1) @ [VInt 1]) = Inr (1 / 40)"
  by (simp_all add: AccuracyEvaluator_calculate_accuracy_def AttackSuccessRate_calculate_asr_def
      filter_replicate)

lemma float_evaluators_fields:
  "build_and_run (float_evaluators res) m d atk q w
     = ((\<lparr>exp_model = m, exp_tokenizer = ''tokenizer of '' @ m\<rparr>, res), w)"
  "calculate_accuracy (float_evaluators res) R P
     = map_sum id to_double (AccuracyEvaluator_calculate_accuracy R P)"
  "calculate_asr (float_evaluators res) R P
     = map_sum id to_double (AttackSuccessRate_calculate_asr R P)"
  "measure_latency (float_evaluators res) m ts k w
     = (of_nat (length ts) * 5 / 2 + of_nat w / 8, Suc w)"
  by (simp_all add: float_evaluators_def fixed_builder_def)

lemma float_evaluators_run:
  "build_and_run (float_evaluators res) (model example_args) (dataset example_args)
     (attack example_args) (quantization example_args) w
   = ((\<lparr>exp_model = ''gpt2'', exp_tokenizer = ''tokenizer of gpt2''\<rparr>, res), w)"
  by (simp add: float_evaluators_fields example_args_def)

lemma forty_example_run_successful:
  "successful_run (float_evaluators (succeeded forty_examples)) example_args 0"
proof -
  have "raised (main (float_evaluators (succeeded forty_examples)) example_args 0) = None"
    by (simp add: main_def float_evaluators_fields succeeded_def evaluate_attack_def
        forty_labels forty_accuracy Let_def)
  then show ?thesis
    unfolding successful_run_def
    by (simp add: float_evaluators_fields) (simp add: succeeded_def)
qed

text \<open>
  Claim C6. In a successful run the record's \<^verbatim>\<open>accuracy_drop\<close> is
  \<^verbatim>\<open>round(accuracy_before - accuracy_after, 2)\<close> and its \<^verbatim>\<open>latency_increase_ms\<close> is
  \<^verbatim>\<open>round(latency_after_ms - latency_before_ms, 2)\<close>: the float difference of the two
  stored values, rounded to the decimal with two places nearest to it (a whole number of
  hundredths at most half a hundredth away), stored as the float nearest to that decimal.
  The other five numeric fields hold what the evaluators returned, as returned.
\<close>

theorem derived_fields_rounded:
  assumes "successful_run env a w"
    and "build_and_run env (model a) (dataset a) (attack a) (quantization a) w = ((x, res), w0)"
  shows "\<exists>r data ol pl ts ab aa asr lb la w1 w2.
           filter is_persist_call (trace (main env a w))
             = [Save_results_json r, Save_results_csv [r]]
         \<and> adversarial_data res = Some data
         \<and> original_labels_of data = Inr ol \<and> perturbed_labels_of data = Inr pl
         \<and> texts_of data = Inr ts
         \<and> calculate_accuracy env ol ol = Inr ab
         \<and> calculate_accuracy env ol pl = Inr aa
         \<and> calculate_asr env ol pl = Inr asr
         \<and> measure_latency env (exp_model x) ts (exp_tokenizer x) w0 = (lb, w1)
         \<and> measure_latency env (exp_model x) ts (exp_tokenizer x) w1 = (la, w2)
         \<and> map_of r ''accuracy_before'' = Some (JNum ab)
         \<and> map_of r ''accuracy_after'' = Some (JNum aa)
         \<and> map_of r ''attack_success_rate'' = Some (JNum asr)
         \<and> map_of r ''latency_before_ms'' = Some (JNum lb)
         \<and> map_of r ''latency_after_ms'' = Some (JNum la)
         \<and> map_of r ''accuracy_drop'' = Some (JNum (py_round (float_sub ab aa) 2))
         \<and> map_of r ''latency_increase_ms'' = Some (JNum (py_round (float_sub la lb) 2))
         \<and> float_sub ab aa = to_double (ab - aa)
         \<and> float_sub la lb = to_double (la - lb)
         \<and> py_round (float_sub ab aa) 2 = to_double (round_decimal (float_sub ab aa) 2)
         \<and> py_round (float_sub la lb) 2 = to_double (round_decimal (float_sub la lb) 2)
         \<and> rounded_to 2 (float_sub ab aa) (round_decimal (float_sub ab aa) 2)
         \<and> rounded_to 2 (float_sub la lb) (round_decimal (float_sub la lb) 2)"
proof -
  from assms obtain data ol pl ab aa asr ts lb w1 la w2 where
    data: "adversarial_data res = Some data" and
    ol: "original_labels_of data = Inr ol" and
    pl: "perturbed_labels_of data = Inr pl" and
    ab: "calculate_accuracy env ol ol = Inr ab" and
    aa: "calculate_accuracy env ol pl = Inr aa" and
    asr: "calculate_asr env ol pl = Inr asr" and
    ts: "texts_of data = Inr ts" and
    lb: "measure_latency env (exp_model x) ts (exp_tokenizer x) w0 = (lb, w1)" and
    la: "measure_latency env (exp_model x) ts (exp_tokenizer x) w1 = (la, w2)" and
    saved: "filter is_persist_call (trace (main env a w))
       = [Save_results_json (final_results_dict a ab aa asr lb la),
          Save_results_csv [final_results_dict a ab aa asr lb la]]"
    by (rule persisted_of_success)
  show ?thesis
    by (intro exI conjI)
       (rule saved data ol pl ts ab aa asr lb la final_results_lookup float_sub_def
          py_round_def round_decimal_rounded)+
qed

text \<open>
  Forty examples, one flipped, with evaluators that return floats. The accuracy after the
  attack is the float 0.975, the float difference \<^verbatim>\<open>1.0 - 0.975\<close> lies above 0.025, and the
  drop is stored as the float 0.03 (the ideal difference \<open>1/40\<close> would round to 0.02).
  The latency readings differ by an eighth, a tie, stored as the float 0.12.
\<close>

theorem derived_fields_rounded_witness:
  "successful_run (float_evaluators (succeeded forty_examples)) example_args 0
   \<and> (\<exists>r. filter is_persist_call
              (trace (main (float_evaluators (succeeded forty_examples)) example_args 0))
               = [Save_results_json r, Save_results_csv [r]]
           \<and> map_of r ''accuracy_before'' = Some (JNum 1)
           \<and> map_of r ''accuracy_after''
               = Some (JNum (8782019273372467 / 9007199254740992))
           \<and> map_of r ''accuracy_drop''
               = Some (JNum (1080863910568919 / 36028797018963968))
           \<and> map_of r ''latency_before_ms'' = Some (JNum 100)
           \<and> map_of r ''latency_after_ms'' = Some (JNum (801 / 8))
           \<and> map_of r ''latency_increase_ms''
               = Some (JNum (1080863910568919 / 9007199254740992)))"
proof -
  let ?env = "float_evaluators (succeeded forty_examples)"
  let ?x = "\<lparr>exp_model = ''gpt2'', exp_tokenizer = ''tokenizer of gpt2''\<rparr>"
  from derived_fields_rounded [OF forty_example_run_successful float_evaluators_run]
  obtain r data ol pl ts ab aa asr lb la w1 w2 where
    saved: "filter is_persist_call (trace (main ?env example_args 0))
              = [Save_results_json r, Save_results_csv [r]]" and
    data: "adversarial_data (succeeded forty_examples) = Some data" and
    ol: "original_labels_of data = Inr ol" and
    pl: "perturbed_labels_of data = Inr pl" and
    ts: "texts_of data = Inr ts" and
    ab: "calculate_accuracy ?env ol ol = Inr ab" and
    aa: "calculate_accuracy ?env ol pl = Inr aa" and
    asr: "calculate_asr ?env ol pl = Inr asr" and
    lb: "measure_latency ?env (exp_model ?x) ts (exp_tokenizer ?x) 0 = (lb, w1)" and
    la: "measure_latency ?env (exp_model ?x) ts (exp_tokenizer ?x) w1 = (la, w2)" and
    fields: "map_of r ''accuracy_before'' = Some (JNum ab)"
      "map_of r ''accuracy_after'' = Some (JNum aa)"
      "map_of r ''latency_before_ms'' = Some (JNum lb)"
      "map_of r ''latency_after_ms'' = Some (JNum la)"
      "map_of r ''accuracy_drop'' = Some (JNum (py_round (float_sub ab aa) 2))"
      "map_of r ''latency_increase_ms'' = Some (JNum (py_round (float_sub la lb) 2))"
    by (elim exE conjE) (rule that, assumption+)
  have "data = forty_examples"
    using data by (simp add: succeeded_def)
  then have seqs: "ol = replicate 39 (VInt 1) @ [VInt 0]" "pl = replicate 39 (VInt 1) @ [VInt 1]"
    "length ts = 40"
    using ol pl ts by (auto simp: forty_labels)
  have "ab = to_double 1" "aa = to_double (39 / 40)"
    using ab aa unfolding seqs by (simp_all add: float_evaluators_fields forty_accuracy)
  moreover have "to_double 1 = 1" "to_double (39 / 40) = 8782019273372467 / 9007199254740992"
    by code_simp+
  ultimately have vals: "ab = 1" "aa = 8782019273372467 / 9007199254740992"
    by simp_all
  have before: "lb = 100" "w1 = 1"
    using lb \<open>length ts = 40\<close> by (simp_all add: float_evaluators_fields)
  then have after: "la = 801 / 8"
    using la \<open>length ts = 40\<close> by (simp add: float_evaluators_fields)
  have rounds:
    "py_round (float_sub 1 (8782019273372467 / 9007199254740992)) 2
       = 1080863910568919 / 36028797018963968"
    "py_round (float_sub (801 / 8) 100) 2 = 1080863910568919 / 9007199254740992"
    by code_simp+
  note concrete = fields [unfolded vals before after rounds]
  show ?thesis
    by (intro conjI exI [of _ r]) (rule forty_example_run_successful saved concrete)+
qed

section \<open>Latency measurement\<close>

lemma texts_of_Inr_iff:
  "texts_of data = Inr ts \<longleftrightarrow> list_all2 (\<lambda>d t. d ''text'' = Some t) data ts"
  by (simp add: texts_of_def comprehension_Inr_iff subscript_Inr_iff)

text \<open>
  Claim C4. In a successful run the entry point calls \<^verbatim>\<open>measure_latency\<close> exactly twice,
  both times with the builder's model handle, the list of the \<^verbatim>\<open>text\<close> entries of
  \<^verbatim>\<open>adversarial_data\<close> in order, and the builder's tokenizer handle; the first reading is
  stored as \<^verbatim>\<open>latency_before_ms\<close> and the second as \<^verbatim>\<open>latency_after_ms\<close>.
\<close>

theorem latency_measured_twice_on_same_texts:
  assumes "successful_run env a w"
    and "build_and_run env (model a) (dataset a) (attack a) (quantization a) w = ((x, res), w0)"
  shows "\<exists>data ts lb w1 la w2 r.
           adversarial_data res = Some data
         \<and> list_all2 (\<lambda>d t. d ''text'' = Some t) data ts
         \<and> filter is_latency_call (trace (main env a w))
             = [Measure_latency (exp_model x) ts (exp_tokenizer x),
                Measure_latency (exp_model x) ts (exp_tokenizer x)]
         \<and> measure_latency env (exp_model x) ts (exp_tokenizer x) w0 = (lb, w1)
         \<and> measure_latency env (exp_model x) ts (exp_tokenizer x) w1 = (la, w2)
         \<and> filter is_persist_call (trace (main env a w))
             = [Save_results_json r, Save_results_csv [r]]
         \<and> map_of r ''latency_before_ms'' = Some (JNum lb)
         \<and> map_of r ''latency_after_ms'' = Some (JNum la)"
proof -
  from assms obtain data ol pl ab aa asr ts lb w1 la w2 where
    data: "adversarial_data res = Some data" and
    ts: "texts_of data = Inr ts" and
    lb: "measure_latency env (exp_model x) ts (exp_tokenizer x) w0 = (lb, w1)" and
    la: "measure_latency env (exp_model x) ts (exp_tokenizer x) w1 = (la, w2)" and
    m: "main env a w =
       \<lparr>raised = None,
        trace = [Setup_logger, Logging_info (running_message a),
                 Run_experiment (model a) (dataset a) (attack a) (quantization a),
                 Calculate_accuracy ol ol, Calculate_accuracy ol pl, Calculate_asr ol pl,
                 Measure_latency (exp_model x) ts (exp_tokenizer x),
                 Measure_latency (exp_model x) ts (exp_tokenizer x),
                 Logging_info_results (final_results_dict a ab aa asr lb la),
                 Save_results_json (final_results_dict a ab aa asr lb la),
                 Save_results_csv [final_results_dict a ab aa asr lb la],
                 Logging_info ''Experiment completed successfully!''],
        world = w2\<rparr>"
    by (rule main_returns)
  have aligned: "list_all2 (\<lambda>d t. d ''text'' = Some t) data ts"
    using ts by (simp add: texts_of_Inr_iff)
  have calls: "filter is_latency_call (trace (main env a w))
             = [Measure_latency (exp_model x) ts (exp_tokenizer x),
                Measure_latency (exp_model x) ts (exp_tokenizer x)]"
    by (simp add: m)
  have saved: "filter is_persist_call (trace (main env a w))
       = [Save_results_json (final_results_dict a ab aa asr lb la),
          Save_results_csv [final_results_dict a ab aa asr lb la]]"
    by (simp add: m)
  show ?thesis
    by (intro exI conjI)
       (rule data aligned calls lb la saved final_results_lookup)+
qed

text \<open>Two examples: both calls receive the same two texts; the clock makes the readings
  differ.\<close>

theorem latency_measured_twice_on_same_texts_witness:
  "successful_run (fixed_builder (succeeded [plain_example, flipped_example])) example_args 0
   \<and> filter is_latency_call
        (trace (main (fixed_builder (succeeded [plain_example, flipped_example])) example_args 0))
      = [Measure_latency ''gpt2'' [VStr ''a fine film'', VStr ''a dull film''] ''tokenizer of gpt2'',
         Measure_latency ''gpt2'' [VStr ''a fine film'', VStr ''a dull film''] ''tokenizer of gpt2'']"
proof -
  let ?data = "[plain_example, flipped_example]"
  let ?env = "fixed_builder (succeeded ?data)"
  let ?x = "\<lparr>exp_model = ''gpt2'', exp_tokenizer = ''tokenizer of gpt2''\<rparr>"
  from latency_measured_twice_on_same_texts [OF example_run_successful fixed_builder_run]
  obtain data ts where
    data: "adversarial_data (succeeded ?data) = Some data" and
    aligned: "list_all2 (\<lambda>d t. d ''text'' = Some t) data ts" and
    calls: "filter is_latency_call (trace (main ?env example_args 0))
             = [Measure_latency (exp_model ?x) ts (exp_tokenizer ?x),
                Measure_latency (exp_model ?x) ts (exp_tokenizer ?x)]"
    by (elim exE conjE) (rule that, assumption+)
  have "data = ?data"
    using data by (simp add: succeeded_def)
  then have "texts_of ?data = Inr ts"
    using aligned by (simp only: texts_of_Inr_iff)
  then have "ts = [VStr ''a fine film'', VStr ''a dull film'']"
    by (simp add: example_labels)
  with calls example_run_successful show ?thesis
    by simp
qed

section \<open>The accuracy baseline\<close>

lemma accuracy_same:
  "AccuracyEvaluator_calculate_accuracy R R = Inr (if R = [] then 0 else 1)"
proof -
  have "filter (\<lambda>(r, p). r = p) (zip R R) = zip R R"
    by (rule filter_True) (auto simp: zip_same)
  then show ?thesis
    by (simp add: AccuracyEvaluator_calculate_accuracy_def)
qed

lemma asr_same: "AttackSuccessRate_calculate_asr R R = Inr 0"
proof -
  have "filter (\<lambda>(r, p). p \<noteq> r) (zip R R) = []"
    by (rule filter_False) (auto simp: zip_same)
  then show ?thesis
    by (simp add: AttackSuccessRate_calculate_asr_def)
qed

lemma original_labels_empty_iff: "original_labels_of data = Inr [] \<longleftrightarrow> data = []"
  by (simp add: original_labels_of_def comprehension_Inr_iff)

text \<open>
  Claim C2, as amended. In a successful run the first metric call is
  \<^verbatim>\<open>calculate_accuracy(original_labels, original_labels)\<close> and its result is stored as
  \<^verbatim>\<open>accuracy_before\<close>; with the accuracy evaluator of the specification that value is 1
  when \<^verbatim>\<open>adversarial_data\<close> is non-empty and 0 when it is empty.
\<close>

theorem accuracy_before_is_baseline:
  assumes "successful_run env a w"
    and "build_and_run env (model a) (dataset a) (attack a) (quantization a) w = ((x, res), w0)"
    and "calculate_accuracy env = AccuracyEvaluator_calculate_accuracy"
  shows "\<exists>data ol ab r.
           adversarial_data res = Some data
         \<and> original_labels_of data = Inr ol
         \<and> hd (filter is_metric_call (trace (main env a w))) = Calculate_accuracy ol ol
         \<and> calculate_accuracy env ol ol = Inr ab
         \<and> filter is_persist_call (trace (main env a w))
             = [Save_results_json r, Save_results_csv [r]]
         \<and> map_of r ''accuracy_before'' = Some (JNum ab)
         \<and> ab = (if data = [] then 0 else 1)"
proof -
  from assms(1,2) obtain data ol pl ab aa asr ts lb w1 la w2 where
    data: "adversarial_data res = Some data" and
    ol: "original_labels_of data = Inr ol" and
    ab: "calculate_accuracy env ol ol = Inr ab" and
    "measure_latency env (exp_model x) ts (exp_tokenizer x) w0 = (lb, w1)" and
    "measure_latency env (exp_model x) ts (exp_tokenizer x) w1 = (la, w2)" and
    saved: "filter is_persist_call (trace (main env a w))
       = [Save_results_json (final_results_dict a ab aa asr lb la),
          Save_results_csv [final_results_dict a ab aa asr lb la]]" and
    calls: "filter is_metric_call (trace (main env a w))
       = [Calculate_accuracy ol ol, Calculate_accuracy ol pl, Calculate_asr ol pl,
          Measure_latency (exp_model x) ts (exp_tokenizer x),
          Measure_latency (exp_model x) ts (exp_tokenizer x)]"
    by (rule persisted_of_success)
  have first: "hd (filter is_metric_call (trace (main env a w))) = Calculate_accuracy ol ol"
    by (simp add: calls)
  have "ol = [] \<longleftrightarrow> data = []"
    using ol original_labels_empty_iff [of data] by auto
  then have val: "ab = (if data = [] then 0 else 1)"
    using ab by (simp add: assms(3) accuracy_same)
  show ?thesis
    by (intro exI conjI) (rule data ol first ab saved final_results_lookup val)+
qed

text \<open>Two examples: the baseline is 1.\<close>

theorem accuracy_before_is_baseline_witness:
  "successful_run (fixed_builder (succeeded [plain_example, flipped_example])) example_args 0
   \<and> calculate_accuracy (fixed_builder (succeeded [plain_example, flipped_example]))
       = AccuracyEvaluator_calculate_accuracy
   \<and> (\<exists>r. filter is_persist_call
              (trace (main (fixed_builder (succeeded [plain_example, flipped_example]))
                 example_args 0))
               = [Save_results_json r, Save_results_csv [r]]
           \<and> map_of r ''accuracy_before'' = Some (JNum 1))"
proof -
  let ?data = "[plain_example, flipped_example]"
  let ?env = "fixed_builder (succeeded ?data)"
  from accuracy_before_is_baseline
         [OF example_run_successful fixed_builder_run fixed_builder_fields(1)]
  obtain data ab r where
    data: "adversarial_data (succeeded ?data) = Some data" and
    saved: "filter is_persist_call (trace (main ?env example_args 0))
              = [Save_results_json r, Save_results_csv [r]]" and
    field: "map_of r ''accuracy_before'' = Some (JNum ab)" and
    val: "ab = (if data = [] then 0 else 1)"
    by (elim exE conjE) (rule that, assumption+)
  have "ab = 1"
    using data val by (auto simp: succeeded_def)
  note concrete = field [unfolded this]
  show ?thesis
    by (intro conjI exI [of _ r])
       (rule example_run_successful fixed_builder_fields(1) saved concrete)+
qed

lemma fixed_builder_build:
  "build_and_run (fixed_builder res) m d atk q w
     = ((\<lparr>exp_model = m, exp_tokenizer = ''tokenizer of '' @ m\<rparr>, res), w)"
  by (simp add: fixed_builder_def)

lemma empty_run:
  "main (fixed_builder (succeeded [])) example_args 0 =
     \<lparr>raised = None,
      trace = [Setup_logger,
               Logging_info ''Running experiment: adversarial on gpt2 with No Quantization'',
               Run_experiment ''gpt2'' ''imdb'' ''adversarial'' None,
               Calculate_accuracy [] [], Calculate_accuracy [] [], Calculate_asr [] [],
               Measure_latency ''gpt2'' [] ''tokenizer of gpt2'',
               Measure_latency ''gpt2'' [] ''tokenizer of gpt2'',
               Logging_info_results (final_results_dict example_args 0 0 0 0 (1 / 8)),
               Save_results_json (final_results_dict example_args 0 0 0 0 (1 / 8)),
               Save_results_csv [final_results_dict example_args 0 0 0 0 (1 / 8)],
               Logging_info ''Experiment completed successfully!''],
      world = 2\<rparr>"
proof -
  have seqs: "original_labels_of [] = Inr []" "perturbed_labels_of [] = Inr []"
    "texts_of [] = Inr []"
    by (simp_all add: original_labels_of_def perturbed_labels_of_def texts_of_def)
  have msg: "running_message example_args
               = ''Running experiment: adversarial on gpt2 with No Quantization''"
    by (simp add: running_message_def example_args_def)
  have args: "model example_args = ''gpt2''" "dataset example_args = ''imdb''"
    "attack example_args = ''adversarial''" "quantization example_args = None"
    by (simp_all add: example_args_def)
  show ?thesis
    by (simp add: main_def fixed_builder_build msg args succeeded_def evaluate_attack_def seqs
        fixed_builder_fields AccuracyEvaluator_calculate_accuracy_def
        AttackSuccessRate_calculate_asr_def Let_def)
qed

lemma empty_run_successful: "successful_run (fixed_builder (succeeded [])) example_args 0"
  unfolding successful_run_def fixed_builder_run
  by (simp add: empty_run) (simp add: succeeded_def)

text \<open>A successful run on empty \<^verbatim>\<open>adversarial_data\<close> stores 0, not 1, as
  \<^verbatim>\<open>accuracy_before\<close>.\<close>

theorem accuracy_before_of_empty_run:
  "successful_run (fixed_builder (succeeded [])) example_args 0
   \<and> map_of (hd (persisted (trace (main (fixed_builder (succeeded [])) example_args 0))))
        ''accuracy_before'' = Some (JNum 0)
   \<and> JNum 0 \<noteq> JNum 1"
  using empty_run_successful by (simp add: empty_run final_results_lookup)

section \<open>The no-op attack\<close>

lemma comprehension_cong:
  "(\<And>d. d \<in> set ds \<Longrightarrow> f d = g d) \<Longrightarrow> comprehension f ds = comprehension g ds"
  by (induction ds) (simp_all cong: sum.case_cong)

lemma perturbed_label_noop:
  assumes "d ''perturbed_label'' = None \<or> d ''perturbed_label'' = d ''label''"
  shows "perturbed_label d = subscript d ''label''"
  using assms by (auto simp: perturbed_label_def subscript_def split: option.splits)

lemma perturbed_labels_noop:
  assumes "\<forall>d\<in>set data. d ''perturbed_label'' = None \<or> d ''perturbed_label'' = d ''label''"
  shows "perturbed_labels_of data = original_labels_of data"
  unfolding perturbed_labels_of_def original_labels_of_def
  using assms by (intro comprehension_cong perturbed_label_noop) simp

text \<open>
  Claim C8. In a successful run with the evaluators of the specification, when every example
  either has no \<^verbatim>\<open>perturbed_label\<close> or has one equal to its \<^verbatim>\<open>label\<close>, the record stores
  0 as \<^verbatim>\<open>attack_success_rate\<close> and 0 as \<^verbatim>\<open>accuracy_drop\<close>.
\<close>

theorem noop_attack_has_no_impact:
  assumes "successful_run env a w"
    and "build_and_run env (model a) (dataset a) (attack a) (quantization a) w = ((x, res), w0)"
    and "calculate_accuracy env = AccuracyEvaluator_calculate_accuracy"
    and "calculate_asr env = AttackSuccessRate_calculate_asr"
    and "adversarial_data res = Some data"
    and "\<forall>d\<in>set data. d ''perturbed_label'' = None \<or> d ''perturbed_label'' = d ''label''"
  shows "\<exists>r. filter is_persist_call (trace (main env a w))
               = [Save_results_json r, Save_results_csv [r]]
           \<and> map_of r ''attack_success_rate'' = Some (JNum 0)
           \<and> map_of r ''accuracy_drop'' = Some (JNum 0)"
proof -
  from assms(1,2) obtain data' ol pl ab aa asr ts lb w1 la w2 where
    data': "adversarial_data res = Some data'" and
    ol: "original_labels_of data' = Inr ol" and
    pl: "perturbed_labels_of data' = Inr pl" and
    ab: "calculate_accuracy env ol ol = Inr ab" and
    aa: "calculate_accuracy env ol pl = Inr aa" and
    asr: "calculate_asr env ol pl = Inr asr" and
    "measure_latency env (exp_model x) ts (exp_tokenizer x) w0 = (lb, w1)" and
    "measure_latency env (exp_model x) ts (exp_tokenizer x) w1 = (la, w2)" and
    saved: "filter is_persist_call (trace (main env a w))
       = [Save_results_json (final_results_dict a ab aa asr lb la),
          Save_results_csv [final_results_dict a ab aa asr lb la]]"
    by (rule persisted_of_success)
  have "data' = data"
    using data' assms(5) by simp
  then have "pl = ol"
    using ol pl perturbed_labels_noop [OF assms(6)] by simp
  then have "aa = ab" and "asr = 0"
    using ab aa asr by (simp_all add: assms(4) asr_same)
  then have rate: "map_of (final_results_dict a ab aa asr lb la) ''attack_success_rate''
                     = Some (JNum 0)"
    and drop: "map_of (final_results_dict a ab aa asr lb la) ''accuracy_drop'' = Some (JNum 0)"
    by (simp_all add: final_results_lookup float_sub_self py_round_zero)
  show ?thesis
    by (intro exI conjI) (rule saved rate drop)+
qed

text \<open>A run on one example that carries no \<^verbatim>\<open>perturbed_label\<close> and one whose
  \<^verbatim>\<open>perturbed_label\<close> repeats its label.\<close>

theorem noop_attack_has_no_impact_witness:
  "successful_run (fixed_builder (succeeded [plain_example, unchanged_example])) example_args 0
   \<and> plain_example ''perturbed_label'' = None
   \<and> unchanged_example ''perturbed_label'' = unchanged_example ''label''
   \<and> (\<exists>r. filter is_persist_call
              (trace (main (fixed_builder (succeeded [plain_example, unchanged_example]))
                 example_args 0))
               = [Save_results_json r, Save_results_csv [r]]
           \<and> map_of r ''attack_success_rate'' = Some (JNum 0)
           \<and> map_of r ''accuracy_drop'' = Some (JNum 0))"
proof -
  let ?data = "[plain_example, unchanged_example]"
  have seqs: "original_labels_of ?data = Inr [VInt 1, VInt 0]"
    "perturbed_labels_of ?data = Inr [VInt 1, VInt 0]"
    "texts_of ?data = Inr [VStr ''a fine film'', VStr ''a dull film'']"
    by (simp_all add: original_labels_of_def perturbed_labels_of_def texts_of_def
        plain_example_def unchanged_example_def subscript_def perturbed_label_def)
  have "raised (main (fixed_builder (succeeded ?data)) example_args 0) = None"
    by (simp add: main_def fixed_builder_build succeeded_def evaluate_attack_def seqs
        fixed_builder_fields AccuracyEvaluator_calculate_accuracy_def
        AttackSuccessRate_calculate_asr_def Let_def)
  then have ok: "successful_run (fixed_builder (succeeded ?data)) example_args 0"
    unfolding successful_run_def by (simp add: fixed_builder_build) (simp add: succeeded_def)
  have noop: "\<forall>d\<in>set ?data. d ''perturbed_label'' = None \<or> d ''perturbed_label'' = d ''label''"
    by (simp add: plain_example_def unchanged_example_def)
  have data: "adversarial_data (succeeded ?data) = Some ?data"
    by (simp add: succeeded_def)
  have "plain_example ''perturbed_label'' = None"
    "unchanged_example ''perturbed_label'' = unchanged_example ''label''"
    by (simp_all add: plain_example_def unchanged_example_def)
  then show ?thesis
    using ok
      noop_attack_has_no_impact [OF ok fixed_builder_run fixed_builder_fields(1,2) data noop]
    by (intro conjI)
qed

section \<open>The label sequences\<close>

lemma original_labels_nth:
  assumes "original_labels_of data = Inr ol"
  shows "length ol = length data" and "i < length data \<Longrightarrow> (data ! i) ''label'' = Some (ol ! i)"
  using assms comprehension_length [of "\<lambda>d. subscript d ''label''" data ol]
    comprehension_nth [of "\<lambda>d. subscript d ''label''" data ol i]
  by (simp_all add: original_labels_of_def subscript_Inr_iff)

lemma perturbed_labels_nth:
  assumes "perturbed_labels_of data = Inr pl"
  shows "length pl = length data" and "i < length data \<Longrightarrow> perturbed_label (data ! i) = Inr (pl ! i)"
  using assms comprehension_length [of perturbed_label data pl]
    comprehension_nth [of perturbed_label data pl i]
  by (simp_all add: perturbed_labels_of_def)

lemma perturbed_label_Inr_iff:
  "perturbed_label d = Inr v \<longleftrightarrow>
     (\<exists>l. d ''label'' = Some l \<and> v = (case d ''perturbed_label'' of None \<Rightarrow> l | Some p \<Rightarrow> p))"
  by (auto simp: perturbed_label_def subscript_def split: option.splits)

lemma evaluate_attack_label_calls:
  assumes "c \<in> set (trace (evaluate_attack env a x data t w))" and "c \<notin> set t"
    and "c = Calculate_accuracy R P \<or> c = Calculate_asr R P"
  shows "\<exists>ol pl. original_labels_of data = Inr ol \<and> perturbed_labels_of data = Inr pl
           \<and> R = ol \<and> (P = ol \<or> P = pl)"
  using assms unfolding evaluate_attack_def abort_def Let_def
  by (auto split: sum.splits prod.splits)

lemma main_label_calls:
  assumes run: "build_and_run env (model a) (dataset a) (attack a) (quantization a) w
                  = ((x, res), w0)"
    and c: "Calculate_accuracy R P \<in> set (trace (main env a w))
            \<or> Calculate_asr R P \<in> set (trace (main env a w))"
  shows "\<exists>data ol pl. status res = Some ''success'' \<and> adversarial_data res = Some data
           \<and> original_labels_of data = Inr ol \<and> perturbed_labels_of data = Inr pl
           \<and> R = ol \<and> (P = ol \<or> P = pl)"
proof -
  let ?t0 = "[Setup_logger, Logging_info (running_message a),
              Run_experiment (model a) (dataset a) (attack a) (quantization a)]"
  have st: "status res = Some ''success''"
  proof (rule ccontr)
    assume "status res \<noteq> Some ''success''"
    from main_not_success [OF run this] c show False
      by (auto split: option.splits)
  qed
  obtain data where data: "adversarial_data res = Some data"
    using c st run by (cases "adversarial_data res") (auto simp: main_def abort_def)
  have m: "main env a w = evaluate_attack env a x data ?t0 w0"
    using st data run by (simp add: main_def)
  from c obtain c' where c': "c' \<in> set (trace (evaluate_attack env a x data ?t0 w0))"
    "c' = Calculate_accuracy R P \<or> c' = Calculate_asr R P"
    unfolding m by blast
  then have "c' \<notin> set ?t0"
    by auto
  from evaluate_attack_label_calls [OF c'(1) this c'(2)] st data show ?thesis
    by blast
qed

lemma example_run:
  "main (fixed_builder (succeeded [plain_example, flipped_example])) example_args 0 =
     \<lparr>raised = None,
      trace = [Setup_logger,
               Logging_info ''Running experiment: adversarial on gpt2 with No Quantization'',
               Run_experiment ''gpt2'' ''imdb'' ''adversarial'' None,
               Calculate_accuracy [VInt 1, VInt 0] [VInt 1, VInt 0],
               Calculate_accuracy [VInt 1, VInt 0] [VInt 1, VInt 1],
               Calculate_asr [VInt 1, VInt 0] [VInt 1, VInt 1],
               Measure_latency ''gpt2'' [VStr ''a fine film'', VStr ''a dull film'']
                 ''tokenizer of gpt2'',
               Measure_latency ''gpt2'' [VStr ''a fine film'', VStr ''a dull film'']
                 ''tokenizer of gpt2'',
               Logging_info_results (final_results_dict example_args 1 (1 / 2) (1 / 2) 5 (41 / 8)),
               Save_results_json (final_results_dict example_args 1 (1 / 2) (1 / 2) 5 (41 / 8)),
               Save_results_csv [final_results_dict example_args 1 (1 / 2) (1 / 2) 5 (41 / 8)],
               Logging_info ''Experiment completed successfully!''],
      world = 2\<rparr>"
proof -
  have msg: "running_message example_args
               = ''Running experiment: adversarial on gpt2 with No Quantization''"
    by (simp add: running_message_def example_args_def)
  have args: "model example_args = ''gpt2''" "dataset example_args = ''imdb''"
    "attack example_args = ''adversarial''" "quantization example_args = None"
    by (simp_all add: example_args_def)
  show ?thesis
    by (simp add: main_def fixed_builder_build msg args succeeded_def evaluate_attack_def
        example_labels fixed_builder_fields AccuracyEvaluator_calculate_accuracy_def
        AttackSuccessRate_calculate_asr_def Let_def)
qed

lemma perturbed_labels_built:
  "original_labels_of data = Inr ol \<Longrightarrow> \<exists>pl. perturbed_labels_of data = Inr pl"
  unfolding original_labels_of_def perturbed_labels_of_def
  by (induction data arbitrary: ol)
     (auto simp: perturbed_label_def subscript_def split: sum.splits option.splits)

text \<open>
  Claim C9. For an example of \<^verbatim>\<open>adversarial_data\<close> that has no \<^verbatim>\<open>perturbed_label\<close> key, the
  entry point's \<^verbatim>\<open>d.get("perturbed_label", d["label"])\<close> is \<^verbatim>\<open>d["label"]\<close>: the example's own
  label when it has one, and no error on account of the missing key. Whenever the original
  labels can be built the perturbed labels are built too and hold that label at the
  example's position. In every \<^verbatim>\<open>calculate_accuracy\<close> and \<^verbatim>\<open>calculate_asr\<close> call the entry
  point makes, the two label arguments agree there, so the position is a positional match
  and is not a flipped position.
\<close>

theorem missing_perturbed_label_defaults_to_label:
  assumes "build_and_run env (model a) (dataset a) (attack a) (quantization a) w = ((x, res), w0)"
    and "adversarial_data res = Some data"
    and "i < length data"
    and "(data ! i) ''perturbed_label'' = None"
  shows "perturbed_label (data ! i) = subscript (data ! i) ''label''
       \<and> (\<forall>l. (data ! i) ''label'' = Some l \<longrightarrow> perturbed_label (data ! i) = Inr l)
       \<and> (\<forall>ol. original_labels_of data = Inr ol \<longrightarrow>
             (\<exists>pl. perturbed_labels_of data = Inr pl \<and> pl ! i = ol ! i))
       \<and> (\<forall>pl. perturbed_labels_of data = Inr pl \<longrightarrow> (data ! i) ''label'' = Some (pl ! i))
       \<and> (\<forall>R P. Calculate_accuracy R P \<in> set (trace (main env a w))
                \<or> Calculate_asr R P \<in> set (trace (main env a w))
              \<longrightarrow> (data ! i) ''label'' = Some (R ! i) \<and> P ! i = R ! i
                \<and> i \<in> positional_matches R P \<and> i \<notin> flipped_positions R P)"
proof -
  have substitutes: "perturbed_label (data ! i) = subscript (data ! i) ''label''"
    using assms(4) by (simp add: perturbed_label_def subscript_def split: option.splits)
  have own_label: "\<forall>l. (data ! i) ''label'' = Some l \<longrightarrow> perturbed_label (data ! i) = Inr l"
    by (simp add: substitutes subscript_def)
  have default: "(data ! i) ''label'' = Some (pl ! i)" if "perturbed_labels_of data = Inr pl" for pl
    using perturbed_labels_nth(2) [OF that assms(3)] assms(4)
    by (auto simp: perturbed_label_Inr_iff)
  have built: "\<forall>ol. original_labels_of data = Inr ol \<longrightarrow>
                 (\<exists>pl. perturbed_labels_of data = Inr pl \<and> pl ! i = ol ! i)"
  proof (intro allI impI)
    fix ol
    assume ol: "original_labels_of data = Inr ol"
    then obtain pl where pl: "perturbed_labels_of data = Inr pl"
      using perturbed_labels_built by blast
    have "(data ! i) ''label'' = Some (ol ! i)"
      using original_labels_nth(2) [OF ol assms(3)] .
    with default [OF pl] have "pl ! i = ol ! i"
      by simp
    with pl show "\<exists>pl. perturbed_labels_of data = Inr pl \<and> pl ! i = ol ! i"
      by blast
  qed
  have calls: "\<forall>R P. Calculate_accuracy R P \<in> set (trace (main env a w))
                \<or> Calculate_asr R P \<in> set (trace (main env a w))
              \<longrightarrow> (data ! i) ''label'' = Some (R ! i) \<and> P ! i = R ! i
                \<and> i \<in> positional_matches R P \<and> i \<notin> flipped_positions R P"
  proof (intro allI impI)
    fix R P
    assume "Calculate_accuracy R P \<in> set (trace (main env a w))
            \<or> Calculate_asr R P \<in> set (trace (main env a w))"
    from main_label_calls [OF assms(1) this] assms(2) obtain ol pl where
      ol: "original_labels_of data = Inr ol" and pl: "perturbed_labels_of data = Inr pl" and
      R: "R = ol" and P: "P = ol \<or> P = pl"
      by auto
    have "(data ! i) ''label'' = Some (ol ! i)" "length ol = length data"
      using original_labels_nth [OF ol] assms(3) by simp_all
    moreover from this default [OF pl] have "pl ! i = ol ! i"
      by simp
    ultimately show "(data ! i) ''label'' = Some (R ! i) \<and> P ! i = R ! i
                \<and> i \<in> positional_matches R P \<and> i \<notin> flipped_positions R P"
      using R P assms(3) by (auto simp: positional_matches_def flipped_positions_def)
  qed
  have defaults: "\<forall>pl. perturbed_labels_of data = Inr pl \<longrightarrow> (data ! i) ''label'' = Some (pl ! i)"
    using default by blast
  show ?thesis
    by (intro conjI substitutes own_label built defaults calls)
qed

text \<open>The first of two examples has no \<^verbatim>\<open>perturbed_label\<close>: it yields its label 1, and
  position 0 of the perturbed labels is that label.\<close>

theorem missing_perturbed_label_defaults_to_label_witness:
  "(0::nat) < length [plain_example, flipped_example]
   \<and> ([plain_example, flipped_example] ! 0) ''perturbed_label'' = None
   \<and> ([plain_example, flipped_example] ! 0) ''label'' = Some (VInt 1)
   \<and> perturbed_label ([plain_example, flipped_example] ! 0) = Inr (VInt 1)
   \<and> Calculate_asr [VInt 1, VInt 0] [VInt 1, VInt 1]
        \<in> set (trace (main (fixed_builder (succeeded [plain_example, flipped_example]))
                   example_args 0))
   \<and> ([plain_example, flipped_example] ! 0) ''label'' = Some ([VInt 1, VInt 0] ! 0)
   \<and> [VInt 1, VInt 1] ! 0 = [VInt 1, VInt 0] ! (0::nat)
   \<and> 0 \<in> positional_matches [VInt 1, VInt 0] [VInt 1, VInt 1]
   \<and> 0 \<notin> flipped_positions [VInt 1, VInt 0] [VInt 1, VInt 1]"
proof -
  let ?data = "[plain_example, flipped_example]"
  let ?env = "fixed_builder (succeeded ?data)"
  have data: "adversarial_data (succeeded ?data) = Some ?data"
    by (simp add: succeeded_def)
  have pos: "(0::nat) < length ?data"
    by simp
  have lacks: "(?data ! 0) ''perturbed_label'' = None"
    by (simp add: plain_example_def)
  have label: "(?data ! 0) ''label'' = Some (VInt 1)"
    by (simp add: plain_example_def)
  have call: "Calculate_asr [VInt 1, VInt 0] [VInt 1, VInt 1]
      \<in> set (trace (main ?env example_args 0))"
    by (simp add: example_run)
  note inst = missing_perturbed_label_defaults_to_label
                [OF fixed_builder_run [of _ 0] data pos lacks]
  note own_label = inst [THEN conjunct2, THEN conjunct1, THEN spec, THEN mp, OF label]
  note at_call = inst [THEN conjunct2, THEN conjunct2, THEN conjunct2, THEN conjunct2,
                       THEN spec [where x = "[VInt 1, VInt 0]"],
                       THEN spec [where x = "[VInt 1, VInt 1]"], THEN mp, OF disjI2, OF call]
  show ?thesis
    using pos lacks label own_label call at_call by (intro conjI) simp_all
qed

section \<open>No length mismatch\<close>

lemma comprehension_subscript_error:
  "comprehension (\<lambda>d. subscript d key) ds = Inl e \<Longrightarrow> e = KeyError key"
  by (induction ds) (auto simp: subscript_def split: sum.splits option.splits)

lemma perturbed_labels_error:
  "perturbed_labels_of data = Inl e \<Longrightarrow> e = KeyError ''label''"
  unfolding perturbed_labels_of_def
  by (induction data)
     (auto simp: perturbed_label_def subscript_def split: sum.splits option.splits)

lemma evaluate_attack_raises:
  assumes "raised (evaluate_attack env a x data t w) = Some e"
  shows "original_labels_of data = Inl e \<or> perturbed_labels_of data = Inl e
       \<or> texts_of data = Inl e
       \<or> (\<exists>ol pl. original_labels_of data = Inr ol \<and> perturbed_labels_of data = Inr pl
            \<and> (calculate_accuracy env ol ol = Inl e \<or> calculate_accuracy env ol pl = Inl e
               \<or> calculate_asr env ol pl = Inl e))"
  using assms unfolding evaluate_attack_def abort_def Let_def
  by (auto split: sum.splits prod.splits)

lemma evaluators_total:
  assumes "length R = length P"
  shows "AccuracyEvaluator_calculate_accuracy R P \<noteq> Inl e"
    and "AttackSuccessRate_calculate_asr R P \<noteq> Inl e"
  using assms
  by (simp_all add: AccuracyEvaluator_calculate_accuracy_def AttackSuccessRate_calculate_asr_def)

lemma evaluate_attack_no_metric_error:
  assumes "calculate_accuracy env = AccuracyEvaluator_calculate_accuracy"
    and "calculate_asr env = AttackSuccessRate_calculate_asr"
  shows "raised (evaluate_attack env a x data t w) \<noteq> Some MetricError"
proof
  assume "raised (evaluate_attack env a x data t w) = Some MetricError"
  from evaluate_attack_raises [OF this] show False
  proof (elim disjE exE conjE)
    assume "original_labels_of data = Inl MetricError"
    then show False
      unfolding original_labels_of_def by (auto dest: comprehension_subscript_error)
  next
    assume "perturbed_labels_of data = Inl MetricError"
    then show False
      by (auto dest: perturbed_labels_error)
  next
    assume "texts_of data = Inl MetricError"
    then show False
      unfolding texts_of_def by (auto dest: comprehension_subscript_error)
  next
    fix ol pl
    assume "original_labels_of data = Inr ol" "calculate_accuracy env ol ol = Inl MetricError"
    then show False
      by (simp add: assms accuracy_same)
  next
    fix ol pl
    assume "original_labels_of data = Inr ol" "perturbed_labels_of data = Inr pl"
      and "calculate_accuracy env ol pl = Inl MetricError"
    then show False
      using original_labels_nth(1) [of data ol] perturbed_labels_nth(1) [of data pl]
      by (simp add: assms evaluators_total)
  next
    fix ol pl
    assume "original_labels_of data = Inr ol" "perturbed_labels_of data = Inr pl"
      and "calculate_asr env ol pl = Inl MetricError"
    then show False
      using original_labels_nth(1) [of data ol] perturbed_labels_nth(1) [of data pl]
      by (simp add: assms evaluators_total)
  qed
qed

lemma main_no_metric_error:
  assumes "calculate_accuracy env = AccuracyEvaluator_calculate_accuracy"
    and "calculate_asr env = AttackSuccessRate_calculate_asr"
  shows "raised (main env a w) \<noteq> Some MetricError"
proof -
  obtain x res w0 where
    run: "build_and_run env (model a) (dataset a) (attack a) (quantization a) w = ((x, res), w0)"
    by (metis surj_pair)
  show ?thesis
    using evaluate_attack_no_metric_error [OF assms]
    by (simp add: main_def run abort_def Let_def split: option.splits)
qed

text \<open>
  Claim C10. Whenever the entry point builds \<^verbatim>\<open>original_labels\<close> or \<^verbatim>\<open>perturbed_labels\<close>,
  the list is as long as \<^verbatim>\<open>adversarial_data\<close> and its \<open>i\<close>-th entry comes from the \<open>i\<close>-th
  example. Every \<^verbatim>\<open>calculate_accuracy\<close> and \<^verbatim>\<open>calculate_asr\<close> call of a run receives two
  lists of the length of \<^verbatim>\<open>adversarial_data\<close>, and with the evaluators of the specification
  no run of the entry point ends in a \<^verbatim>\<open>MetricError\<close>.
\<close>

theorem label_sequences_aligned:
  assumes "build_and_run env (model a) (dataset a) (attack a) (quantization a) w = ((x, res), w0)"
  shows "(\<forall>data ol. original_labels_of data = Inr ol \<longrightarrow>
            length ol = length data \<and> (\<forall>i<length data. (data ! i) ''label'' = Some (ol ! i)))
       \<and> (\<forall>data pl. perturbed_labels_of data = Inr pl \<longrightarrow>
            length pl = length data
            \<and> (\<forall>i<length data. perturbed_label (data ! i) = Inr (pl ! i)))
       \<and> (\<forall>R P. Calculate_accuracy R P \<in> set (trace (main env a w))
                \<or> Calculate_asr R P \<in> set (trace (main env a w))
              \<longrightarrow> (\<exists>data. adversarial_data res = Some data
                     \<and> length R = length data \<and> length P = length data))
       \<and> (calculate_accuracy env = AccuracyEvaluator_calculate_accuracy
            \<and> calculate_asr env = AttackSuccessRate_calculate_asr
          \<longrightarrow> raised (main env a w) \<noteq> Some MetricError)"
proof -
  have originals: "\<forall>data ol. original_labels_of data = Inr ol \<longrightarrow>
            length ol = length data \<and> (\<forall>i<length data. (data ! i) ''label'' = Some (ol ! i))"
    using original_labels_nth by blast
  have perturbed: "\<forall>data pl. perturbed_labels_of data = Inr pl \<longrightarrow>
            length pl = length data
            \<and> (\<forall>i<length data. perturbed_label (data ! i) = Inr (pl ! i))"
    using perturbed_labels_nth by blast
  have calls: "\<forall>R P. Calculate_accuracy R P \<in> set (trace (main env a w))
                \<or> Calculate_asr R P \<in> set (trace (main env a w))
              \<longrightarrow> (\<exists>data. adversarial_data res = Some data
                     \<and> length R = length data \<and> length P = length data)"
  proof (intro allI impI)
    fix R P
    assume "Calculate_accuracy R P \<in> set (trace (main env a w))
            \<or> Calculate_asr R P \<in> set (trace (main env a w))"
    from main_label_calls [OF assms this] obtain data ol pl where
      "adversarial_data res = Some data" "original_labels_of data = Inr ol"
      "perturbed_labels_of data = Inr pl" "R = ol" "P = ol \<or> P = pl"
      by (elim exE conjE) (rule that, assumption+)
    then show "\<exists>data. adversarial_data res = Some data
                 \<and> length R = length data \<and> length P = length data"
      using original_labels_nth(1) [of data ol] perturbed_labels_nth(1) [of data pl] by auto
  qed
  have no_error: "calculate_accuracy env = AccuracyEvaluator_calculate_accuracy
            \<and> calculate_asr env = AttackSuccessRate_calculate_asr
          \<longrightarrow> raised (main env a w) \<noteq> Some MetricError"
    using main_no_metric_error [of env a w] by simp
  show ?thesis
    by (intro conjI originals perturbed calls no_error)
qed

text \<open>The run on two examples: both label lists have two entries, in the order of the
  examples, and the run ends without an exception.\<close>

theorem label_sequences_aligned_witness:
  "original_labels_of [plain_example, flipped_example] = Inr [VInt 1, VInt 0]
   \<and> length [VInt 1, VInt 0] = length [plain_example, flipped_example]
   \<and> ([plain_example, flipped_example] ! 1) ''label'' = Some ([VInt 1, VInt 0] ! 1)
   \<and> perturbed_labels_of [plain_example, flipped_example] = Inr [VInt 1, VInt 1]
   \<and> length [VInt 1, VInt 1] = length [plain_example, flipped_example]
   \<and> perturbed_label ([plain_example, flipped_example] ! 1) = Inr ([VInt 1, VInt 1] ! 1)
   \<and> Calculate_asr [VInt 1, VInt 0] [VInt 1, VInt 1]
        \<in> set (trace (main (fixed_builder (succeeded [plain_example, flipped_example]))
                   example_args 0))
   \<and> calculate_accuracy (fixed_builder (succeeded [plain_example, flipped_example]))
       = AccuracyEvaluator_calculate_accuracy
   \<and> calculate_asr (fixed_builder (succeeded [plain_example, flipped_example]))
       = AttackSuccessRate_calculate_asr
   \<and> raised (main (fixed_builder (succeeded [plain_example, flipped_example])) example_args 0)
       \<noteq> Some MetricError"
proof -
  let ?data = "[plain_example, flipped_example]"
  let ?env = "fixed_builder (succeeded ?data)"
  note inst = label_sequences_aligned [OF fixed_builder_run [of "succeeded ?data" 0]]
  note originals = inst [THEN conjunct1, THEN spec, THEN spec, THEN mp, OF example_labels(1)]
  note perturbed = inst [THEN conjunct2, THEN conjunct1, THEN spec, THEN spec, THEN mp,
                         OF example_labels(2)]
  note no_error = inst [THEN conjunct2, THEN conjunct2, THEN conjunct2, THEN mp, OF conjI,
                        OF fixed_builder_fields(1) fixed_builder_fields(2)]
  have second: "(1::nat) < length ?data"
    by simp
  note label_at = originals [THEN conjunct2, THEN spec, THEN mp, OF second]
  note perturbed_at = perturbed [THEN conjunct2, THEN spec, THEN mp, OF second]
  have call: "Calculate_asr [VInt 1, VInt 0] [VInt 1, VInt 1]
      \<in> set (trace (main ?env example_args 0))"
    by (simp add: example_run)
  show ?thesis
    by (intro conjI)
       (rule example_labels originals [THEN conjunct1] perturbed [THEN conjunct1] label_at
          perturbed_at call fixed_builder_fields no_error)+
qed

section \<open>The sample count\<close>

lemma final_results_dict_num_samples:
  "final_results_dict (a\<lparr>num_samples := n\<rparr>) ab aa asr lb la = final_results_dict a ab aa asr lb la"
  by (simp add: final_results_dict_def)

lemma evaluate_attack_num_samples:
  "evaluate_attack env (a\<lparr>num_samples := n\<rparr>) x data t w = evaluate_attack env a x data t w"
  unfolding evaluate_attack_def final_results_dict_num_samples by (rule refl)

lemma main_ignores_num_samples: "main env (a\<lparr>num_samples := n\<rparr>) w = main env a w"
proof -
  have fields: "model (a\<lparr>num_samples := n\<rparr>) = model a"
    "dataset (a\<lparr>num_samples := n\<rparr>) = dataset a"
    "attack (a\<lparr>num_samples := n\<rparr>) = attack a"
    "quantization (a\<lparr>num_samples := n\<rparr>) = quantization a"
    "running_message (a\<lparr>num_samples := n\<rparr>) = running_message a"
    by (simp_all add: running_message_def)
  show ?thesis
    unfolding main_def fields evaluate_attack_num_samples by (rule refl)
qed

text \<open>
  Claim C3 does not hold of the entry point: \<^verbatim>\<open>--num_samples\<close> ("Number of examples to
  attack") is parsed and never handed to the builder, so the run is the same for every sample
  count. With a sample count of 1 and a builder that answers with two examples, both
  examples are evaluated.
\<close>

theorem sample_count_not_enforced:
  "num_samples example_args = 1
   \<and> adversarial_data (succeeded [plain_example, flipped_example])
       = Some [plain_example, flipped_example]
   \<and> successful_run (fixed_builder (succeeded [plain_example, flipped_example])) example_args 0
   \<and> filter is_metric_call
        (trace (main (fixed_builder (succeeded [plain_example, flipped_example])) example_args 0))
      = [Calculate_accuracy [VInt 1, VInt 0] [VInt 1, VInt 0],
         Calculate_accuracy [VInt 1, VInt 0] [VInt 1, VInt 1],
         Calculate_asr [VInt 1, VInt 0] [VInt 1, VInt 1],
         Measure_latency ''gpt2'' [VStr ''a fine film'', VStr ''a dull film''] ''tokenizer of gpt2'',
         Measure_latency ''gpt2'' [VStr ''a fine film'', VStr ''a dull film''] ''tokenizer of gpt2'']
   \<and> \<not> int (length [plain_example, flipped_example]) \<le> num_samples example_args
   \<and> main (fixed_builder (succeeded [plain_example, flipped_example]))
        (example_args\<lparr>num_samples := 50\<rparr>) 0
     = main (fixed_builder (succeeded [plain_example, flipped_example])) example_args 0"
proof -
  have "num_samples example_args = 1"
    by (simp add: example_args_def)
  moreover have "adversarial_data (succeeded [plain_example, flipped_example])
       = Some [plain_example, flipped_example]"
    by (simp add: succeeded_def)
  moreover have "filter is_metric_call
        (trace (main (fixed_builder (succeeded [plain_example, flipped_example])) example_args 0))
      = [Calculate_accuracy [VInt 1, VInt 0] [VInt 1, VInt 0],
         Calculate_accuracy [VInt 1, VInt 0] [VInt 1, VInt 1],
         Calculate_asr [VInt 1, VInt 0] [VInt 1, VInt 1],
         Measure_latency ''gpt2'' [VStr ''a fine film'', VStr ''a dull film''] ''tokenizer of gpt2'',
         Measure_latency ''gpt2'' [VStr ''a fine film'', VStr ''a dull film''] ''tokenizer of gpt2'']"
    by (simp add: example_run)
  moreover have "\<not> int (length [plain_example, flipped_example]) \<le> num_samples example_args"
    by (simp add: example_args_def)
  ultimately show ?thesis
    using example_run_successful main_ignores_num_samples by (intro conjI)
qed

end
